theory Spec2Isabelle
  imports Main
begin

section \<open>Data model of \<open>backend/ai_generator.py\<close>\<close>

text \<open>
  A Python \<open>str\<close> is a \<open>string\<close>; one \<open>char\<close> of the model stands for one character
  of the Python text, so \<open>length\<close> is Python's \<open>len\<close>. A parameter mapping
  (\<open>Dict[str, Any]\<close>) and a tool definition are association lists: the orchestrator never
  looks inside them. Python's \<open>None\<close> is \<open>None\<close> of an option type.
\<close>

type_synonym tool_input = "(string \<times> string) list"
type_synonym tool_definition = "(string \<times> string) list"

text \<open>
  Every exception the code can meet is a value: what the backend call raises, what
  \<open>execute_tool\<close> raises, \<open>AttributeError\<close> (an attribute of \<open>None\<close>, or \<open>.text\<close> of a
  block that has none) and \<open>IndexError\<close> (\<open>content[0]\<close> of an empty list).
\<close>

datatype error = BackendError string | ToolError string | AttributeError | IndexError

text \<open>The dictionary appended by \<open>add_tool_call\<close>, and the class \<open>ToolCallState\<close>.\<close>

record tool_call =
  tc_round :: int
  tc_tool :: string
  tc_params :: tool_input
  tc_result_length :: int

record ToolCallState =
  max_rounds :: int
  current_round :: int
  tool_calls_made :: "tool_call list"

text \<open>
  A content block of a response: a text block (it has \<open>.text\<close>) or a block whose
  \<open>.type\<close> is \<open>"tool_use"\<close> (it has \<open>.id\<close>, \<open>.name\<close>, \<open>.input\<close> and no \<open>.text\<close>).
\<close>

datatype content_block =
    TextBlock string
  | ToolUseBlock string string tool_input

record response =
  stop_reason :: string
  content :: "content_block list"

text \<open>
  The dictionary \<open>{"type": "tool_result", "tool_use_id": ..., "content": ...}\<close>; the
  content is whatever \<open>execute_tool\<close> returned, a text or \<open>None\<close>.
\<close>

record tool_result =
  result_type :: string
  tool_use_id :: string
  result_content :: "string option"

text \<open>
  A message \<open>{"role": ..., "content": ...}\<close>: its content is the query text, the content
  blocks of a response, or the list of tool results of a round.
\<close>

datatype role = User | Assistant

datatype message_content =
    Text string
  | Blocks "content_block list"
  | ToolResults "tool_result list"

record message =
  role :: role
  message_content :: message_content

text \<open>
  The keyword arguments of \<open>client.messages.create\<close>. The keys \<open>tools\<close> and
  \<open>tool_choice\<close> are optional; \<open>tool_choice\<close> is a dictionary with the one key \<open>type\<close>.
\<close>

datatype tool_choice = ToolChoice string

record request =
  model :: string
  temperature :: int
  max_tokens :: int
  messages :: "message list"
  system :: string
  tools :: "tool_definition list option"
  tool_choice :: "tool_choice option"

text \<open>
  The object \<open>self\<close>. The text of the class attribute \<open>SYSTEM_PROMPT\<close> is a field: no
  property below depends on its wording. \<open>base_params\<close> is what \<open>__init__\<close> stores.
\<close>

record base_params =
  bp_model :: string
  bp_temperature :: int
  bp_max_tokens :: int

record AIGenerator =
  SYSTEM_PROMPT :: string
  self_model :: string
  self_base_params :: base_params

definition AIGenerator_init :: "string \<Rightarrow> string \<Rightarrow> AIGenerator" where
  "AIGenerator_init prompt mdl =
     \<lparr>SYSTEM_PROMPT = prompt, self_model = mdl,
      self_base_params = \<lparr>bp_model = mdl, bp_temperature = 0, bp_max_tokens = 800\<rparr>\<rparr>"

section \<open>The two collaborators and the log of calls made to them\<close>

text \<open>
  The backend (\<open>client.messages.create\<close>) and the tool manager (\<open>execute_tool\<close>) are
  outside the program. Each is a function on an external state \<open>'w\<close> that returns a
  result or raises. The world also keeps, in order, every call made to either of them with
  its outcome, as a mock's call list does.
\<close>

datatype event =
    BackendCall request "error + response"
  | ToolCall string tool_input "error + string option"

record 'w world =
  ext :: 'w
  trace :: "event list"

type_synonym 'w client = "request \<Rightarrow> 'w \<Rightarrow> (error + response) \<times> 'w"
type_synonym 'w tool_manager = "string \<Rightarrow> tool_input \<Rightarrow> 'w \<Rightarrow> (error + string option) \<times> 'w"

definition messages_create :: "'w client \<Rightarrow> request \<Rightarrow> 'w world \<Rightarrow> (error + response) \<times> 'w world" where
  "messages_create client req w =
     (case client req (ext w) of
        (out, x) \<Rightarrow> (out, \<lparr>ext = x, trace = trace w @ [BackendCall req out]\<rparr>))"

definition execute_tool :: "'w tool_manager \<Rightarrow> string \<Rightarrow> tool_input \<Rightarrow> 'w world \<Rightarrow> (error + string option) \<times> 'w world" where
  "execute_tool manager nm inp w =
     (case manager nm inp (ext w) of
        (out, x) \<Rightarrow> (out, \<lparr>ext = x, trace = trace w @ [ToolCall nm inp out]\<rparr>))"

section \<open>\<open>ToolCallState\<close>\<close>

definition ToolCallState_init :: "int \<Rightarrow> ToolCallState" where
  "ToolCallState_init n = \<lparr>max_rounds = n, current_round = 0, tool_calls_made = []\<rparr>"

definition can_make_more_calls :: "ToolCallState \<Rightarrow> bool" where
  "can_make_more_calls ts \<longleftrightarrow> current_round ts < max_rounds ts"

definition increment_round :: "ToolCallState \<Rightarrow> ToolCallState" where
  "increment_round ts = ts\<lparr>current_round := current_round ts + 1\<rparr>"

text \<open>Python's truth value of a text or \<open>None\<close>: false for \<open>None\<close> and for the empty text.\<close>

fun truthy :: "string option \<Rightarrow> bool" where
  "truthy None = False"
| "truthy (Some t) = (t \<noteq> [])"

fun len :: "string option \<Rightarrow> int" where
  "len None = 0"
| "len (Some t) = int (length t)"

definition add_tool_call :: "ToolCallState \<Rightarrow> string \<Rightarrow> tool_input \<Rightarrow> string option \<Rightarrow> ToolCallState" where
  "add_tool_call ts tool_name ps res =
     ts\<lparr>tool_calls_made := tool_calls_made ts @
          [\<lparr>tc_round = current_round ts, tc_tool = tool_name, tc_params = ps,
            tc_result_length = (if truthy res then len res else 0)\<rparr>]\<rparr>"

section \<open>\<open>AIGenerator\<close>\<close>

text \<open>
  \<open>response.content[0].text\<close>: \<open>IndexError\<close> on an empty content list, \<open>AttributeError\<close>
  when the first block is a tool invocation.
\<close>

fun content0_text :: "response \<Rightarrow> error + string" where
  "content0_text r =
     (case content r of
        [] \<Rightarrow> Inl IndexError
      | TextBlock t # _ \<Rightarrow> Inr t
      | ToolUseBlock _ _ _ # _ \<Rightarrow> Inl AttributeError)"

text \<open>
  The \<open>for\<close> loop of \<open>_execute_tool_round\<close> over the content blocks, with the local
  variables \<open>tool_results\<close> and \<open>tools_executed\<close> as accumulator. A tool manager that is
  \<open>None\<close> raises \<open>AttributeError\<close> at the first tool invocation; an \<open>execute_tool\<close> that
  raises ends the loop there.
\<close>

fun tool_blocks_loop ::
  "'w tool_manager option \<Rightarrow> content_block list \<Rightarrow> tool_result list \<Rightarrow> bool \<Rightarrow>
   ToolCallState \<Rightarrow> 'w world \<Rightarrow> (error + tool_result list \<times> bool) \<times> ToolCallState \<times> 'w world" where
  "tool_blocks_loop tm [] rs ex ts w = (Inr (rs, ex), ts, w)"
| "tool_blocks_loop tm (TextBlock t # bs) rs ex ts w = tool_blocks_loop tm bs rs ex ts w"
| "tool_blocks_loop tm (ToolUseBlock i nm inp # bs) rs ex ts w =
     (case tm of
        None \<Rightarrow> (Inl AttributeError, ts, w)
      | Some manager \<Rightarrow>
          (case execute_tool manager nm inp w of
             (Inl e, w') \<Rightarrow> (Inl e, ts, w')
           | (Inr res, w') \<Rightarrow>
               tool_blocks_loop tm bs
                 (rs @ [\<lparr>result_type = ''tool_result'', tool_use_id = i, result_content = res\<rparr>])
                 True (add_tool_call ts nm inp res) w'))"

definition execute_tool_round ::
  "response \<Rightarrow> message list \<Rightarrow> 'w tool_manager option \<Rightarrow> ToolCallState \<Rightarrow> 'w world \<Rightarrow>
   (error + message list \<times> bool) \<times> ToolCallState \<times> 'w world" where
  "execute_tool_round resp msgs tm ts w =
     (let updated_messages = msgs @ [\<lparr>role = Assistant, message_content = Blocks (content resp)\<rparr>]
      in case tool_blocks_loop tm (content resp) [] False ts w of
           (Inl e, ts', w') \<Rightarrow> (Inl e, ts', w')
         | (Inr (tool_results, tools_executed), ts', w') \<Rightarrow>
             (Inr (if tool_results \<noteq> []
                   then updated_messages @ [\<lparr>role = User, message_content = ToolResults tool_results\<rparr>]
                   else updated_messages,
                   tools_executed), ts', w'))"

text \<open>The dictionary \<open>final_params\<close> of \<open>_make_final_response\<close>: it has no tool keys.\<close>

definition final_params :: "AIGenerator \<Rightarrow> message list \<Rightarrow> string \<Rightarrow> request" where
  "final_params self msgs system_content =
     \<lparr>model = bp_model (self_base_params self),
      temperature = bp_temperature (self_base_params self),
      max_tokens = bp_max_tokens (self_base_params self),
      messages = msgs, system = system_content,
      tools = None, tool_choice = None\<rparr>"

definition make_final_response ::
  "AIGenerator \<Rightarrow> 'w client \<Rightarrow> message list \<Rightarrow> string \<Rightarrow> 'w world \<Rightarrow> (error + string) \<times> 'w world" where
  "make_final_response self client msgs system_content w =
     (case messages_create client (final_params self msgs system_content) w of
        (Inl e, w') \<Rightarrow> (Inl e, w')
      | (Inr final_response, w') \<Rightarrow> (content0_text final_response, w'))"

text \<open>
  The request built at the head of each iteration (\<open>api_params\<close>). \<open>tools and tool_manager\<close>
  is true when the tool list is neither \<open>None\<close> nor empty and the manager is not \<open>None\<close>
  (a tool manager object is true: its class, which is not in this file, is taken to define
  neither \<open>__bool__\<close> nor \<open>__len__\<close>).
\<close>

definition api_params ::
  "AIGenerator \<Rightarrow> tool_definition list option \<Rightarrow> 'w tool_manager option \<Rightarrow> message list \<Rightarrow> string \<Rightarrow> request" where
  "api_params self tls tm msgs system_content =
     (let p = \<lparr>model = bp_model (self_base_params self),
               temperature = bp_temperature (self_base_params self),
               max_tokens = bp_max_tokens (self_base_params self),
               messages = msgs, system = system_content,
               tools = None, tool_choice = None\<rparr>
      in if tls \<noteq> None \<and> tls \<noteq> Some [] \<and> tm \<noteq> None
         then p\<lparr>tools := tls, tool_choice := Some (ToolChoice ''auto'')\<rparr>
         else p)"

text \<open>
  The ways the \<open>while\<close> loop is left: an exception, the \<open>return\<close> inside it, the \<open>break\<close>,
  and its condition becoming false. The last two carry the value of \<open>messages\<close>.
\<close>

datatype loop_exit =
    Raise error
  | Return string
  | Break "message list"
  | Exhausted "message list"

text \<open>
  One pass through the body of the \<open>while\<close> loop: it leaves the loop (\<open>Inl\<close>) or reaches
  the end of the body with the new value of \<open>messages\<close> (\<open>Inr\<close>), the round incremented.
\<close>

definition loop_body ::
  "AIGenerator \<Rightarrow> 'w client \<Rightarrow> tool_definition list option \<Rightarrow> 'w tool_manager option \<Rightarrow> string \<Rightarrow>
   message list \<Rightarrow> ToolCallState \<Rightarrow> 'w world \<Rightarrow> (loop_exit + message list) \<times> ToolCallState \<times> 'w world" where
  "loop_body self client tls tm system_content msgs ts w =
     (case messages_create client (api_params self tls tm msgs system_content) w of
        (Inl e, w1) \<Rightarrow> (Inl (Raise e), ts, w1)
      | (Inr resp, w1) \<Rightarrow>
          if stop_reason resp = ''tool_use'' then
            (case execute_tool_round resp msgs tm ts w1 of
               (Inl e, ts2, w2) \<Rightarrow> (Inl (Raise e), ts2, w2)
             | (Inr (msgs2, tools_executed), ts2, w2) \<Rightarrow>
                 if \<not> tools_executed then (Inl (Break msgs2), ts2, w2)
                 else (Inr msgs2, increment_round ts2, w2))
          else
            (case content0_text resp of
               Inl e \<Rightarrow> (Inl (Raise e), ts, w1)
             | Inr t \<Rightarrow> (Inl (Return t), ts, w1)))"

section \<open>Views of the log and of a response\<close>

text \<open>
  The requests sent to the backend, the outcomes of these calls, and the tool executions
  asked of the tool manager, each in the order of the log.
\<close>

fun backend_requests :: "event list \<Rightarrow> request list" where
  "backend_requests [] = []"
| "backend_requests (BackendCall req out # es) = req # backend_requests es"
| "backend_requests (ToolCall nm inp out # es) = backend_requests es"

fun backend_outcomes :: "event list \<Rightarrow> (error + response) list" where
  "backend_outcomes [] = []"
| "backend_outcomes (BackendCall req out # es) = out # backend_outcomes es"
| "backend_outcomes (ToolCall nm inp out # es) = backend_outcomes es"

fun tool_executions :: "event list \<Rightarrow> (string \<times> tool_input) list" where
  "tool_executions [] = []"
| "tool_executions (BackendCall req out # es) = tool_executions es"
| "tool_executions (ToolCall nm inp out # es) = (nm, inp) # tool_executions es"

text \<open>The executions that returned, each with the length \<open>add_tool_call\<close> stores for it.\<close>

fun returned_executions :: "event list \<Rightarrow> (string \<times> tool_input \<times> int) list" where
  "returned_executions [] = []"
| "returned_executions (BackendCall req out # es) = returned_executions es"
| "returned_executions (ToolCall nm inp (Inl e) # es) = returned_executions es"
| "returned_executions (ToolCall nm inp (Inr res) # es) = (nm, inp, len res) # returned_executions es"

text \<open>An entry of the log that is a tool execution which raised.\<close>

fun raised_execution :: "event \<Rightarrow> bool" where
  "raised_execution (ToolCall nm inp (Inl e)) = True"
| "raised_execution ev = False"

text \<open>What a record of the invocation log says about the call: tool, parameters, result length.\<close>

fun logged_call :: "tool_call \<Rightarrow> string \<times> tool_input \<times> int" where
  "logged_call c = (tc_tool c, tc_params c, tc_result_length c)"

text \<open>The tool invocations of a content list, in order: id, name and input of each.\<close>

fun invocations :: "content_block list \<Rightarrow> (string \<times> string \<times> tool_input) list" where
  "invocations [] = []"
| "invocations (TextBlock t # bs) = invocations bs"
| "invocations (ToolUseBlock i nm inp # bs) = (i, nm, inp) # invocations bs"

text \<open>The log entry of the execution that answered an invocation with a given tool result.\<close>

fun executed_as :: "string \<times> string \<times> tool_input \<Rightarrow> tool_result \<Rightarrow> event" where
  "executed_as (i, nm, inp) r = ToolCall nm inp (Inr (result_content r))"

text \<open>
  The invocation log of the tool state agrees with the world's log; no execution in a log
  raised; a log ends with the one execution that raised, with a given failure.
\<close>

definition tracked :: "ToolCallState \<Rightarrow> 'w world \<Rightarrow> bool" where
  "tracked ts w \<longleftrightarrow> map logged_call (tool_calls_made ts) = returned_executions (trace w)"

definition no_raise :: "event list \<Rightarrow> bool" where
  "no_raise tr \<longleftrightarrow> (\<forall>ev \<in> set tr. \<not> raised_execution ev)"

definition aborted_by :: "error \<Rightarrow> event list \<Rightarrow> bool" where
  "aborted_by e tr \<longleftrightarrow> (\<exists>pre nm inp. tr = pre @ [ToolCall nm inp (Inl e)] \<and> no_raise pre)"

text \<open>The backend call returned a response whose stop reason is \<open>"tool_use"\<close>.\<close>

fun wants_tool :: "error + response \<Rightarrow> bool" where
  "wants_tool (Inl e) = False"
| "wants_tool (Inr r) = (stop_reason r = ''tool_use'')"

text \<open>Each of the rounds \<open>0\<close> to \<open>k - 1\<close> has a record in the invocation log.\<close>

definition rounds_logged :: "ToolCallState \<Rightarrow> int \<Rightarrow> bool" where
  "rounds_logged ts k \<longleftrightarrow> (\<forall>j. 0 \<le> j \<and> j < k \<longrightarrow> (\<exists>c \<in> set (tool_calls_made ts). tc_round c = j))"

section \<open>Mock collaborators for concrete runs\<close>

text \<open>
  A backend that plays a script, as the \<open>side_effect\<close> list of the tests does (a mock raises
  when its list is used up), a tool manager that always returns a text and one that
  always raises.
\<close>

definition scripted_client :: "(error + response) list client" where
  "scripted_client req script =
     (case script of
        [] \<Rightarrow> (Inl (BackendError ''StopIteration''), [])
      | out # rest \<Rightarrow> (out, rest))"

definition returning_manager :: "'w tool_manager" where
  "returning_manager nm inp x = (Inr (Some ''Tool result''), x)"

definition raising_manager :: "'w tool_manager" where
  "raising_manager nm inp x = (Inl (ToolError ''Tool error''), x)"

definition tool_use_response :: response where
  "tool_use_response =
     \<lparr>stop_reason = ''tool_use'',
      content = [ToolUseBlock ''tool_1'' ''search_tool'' [(''query'', ''test'')]]\<rparr>"

definition empty_tool_use_response :: response where
  "empty_tool_use_response = \<lparr>stop_reason = ''tool_use'', content = []\<rparr>"

definition end_turn_response :: response where
  "end_turn_response = \<lparr>stop_reason = ''end_turn'', content = [TextBlock ''Final answer'']\<rparr>"

definition mock_tools :: "tool_definition list" where
  "mock_tools = [[(''name'', ''search_tool''), (''description'', ''Search tool'')]]"

section \<open>A tool round keeps the round counter\<close>

lemma tool_blocks_loop_rounds:
  "tool_blocks_loop tm bs rs ex ts w = (out, ts', w') \<Longrightarrow>
   max_rounds ts' = max_rounds ts \<and> current_round ts' = current_round ts"
proof (induction tm bs rs ex ts w rule: tool_blocks_loop.induct)
  case (1 tm rs ex ts w)
  then show ?case by simp
next
  case (2 tm t bs rs ex ts w)
  then show ?case by simp
next
  case (3 tm i nm inp bs rs ex ts w)
  show ?case
  proof (cases tm)
    case None
    with 3 show ?thesis by simp
  next
    case (Some manager)
    obtain r w1 where e: "execute_tool manager nm inp w = (r, w1)"
      by (cases "execute_tool manager nm inp w")
    show ?thesis
    proof (cases r)
      case (Inl a)
      with 3 Some e show ?thesis by simp
    next
      case (Inr res)
      with 3(2) Some e have "tool_blocks_loop tm bs
          (rs @ [\<lparr>result_type = ''tool_result'', tool_use_id = i, result_content = res\<rparr>])
          True (add_tool_call ts nm inp res) w1 = (out, ts', w')"
        by simp
      from 3(1)[OF Some e[symmetric] Inr this] show ?thesis
        by (simp add: add_tool_call_def)
    qed
  qed
qed

lemma execute_tool_round_rounds:
  "execute_tool_round resp msgs tm ts w = (out, ts', w') \<Longrightarrow>
   max_rounds ts' = max_rounds ts \<and> current_round ts' = current_round ts"
  by (auto simp: execute_tool_round_def Let_def split: prod.splits sum.splits
           dest: tool_blocks_loop_rounds)

lemma loop_body_rounds:
  assumes "loop_body self client tls tm system_content msgs ts w = (out, ts', w')"
  shows "max_rounds ts' = max_rounds ts"
    and "current_round ts' = (case out of Inl ex \<Rightarrow> current_round ts | Inr m \<Rightarrow> current_round ts + 1)"
  using assms
  by (auto simp: loop_body_def increment_round_def
           split: prod.splits sum.splits if_splits dest: execute_tool_round_rounds)

section \<open>The loop and \<open>generate_response\<close>\<close>

function while_loop ::
  "AIGenerator \<Rightarrow> 'w client \<Rightarrow> tool_definition list option \<Rightarrow> 'w tool_manager option \<Rightarrow> string \<Rightarrow>
   message list \<Rightarrow> ToolCallState \<Rightarrow> 'w world \<Rightarrow> loop_exit \<times> ToolCallState \<times> 'w world" where
  "while_loop self client tls tm system_content msgs ts w =
     (if can_make_more_calls ts then
        (case loop_body self client tls tm system_content msgs ts w of
           (Inl ex, ts', w') \<Rightarrow> (ex, ts', w')
         | (Inr msgs', ts', w') \<Rightarrow> while_loop self client tls tm system_content msgs' ts' w')
      else (Exhausted msgs, ts, w))"
  by pat_completeness auto
termination
proof (relation "measure (\<lambda>(self, client, tls, tm, system_content, msgs, ts, w).
                   nat (max_rounds ts - current_round ts))", goal_cases)
  case 1
  show ?case by simp
next
  case (2 self client tls tm system_content msgs ts w x1 rest msgs' ts' w')
  from 2 have "loop_body self client tls tm system_content msgs ts w = (Inr msgs', ts', w')"
    by simp
  from loop_body_rounds[OF this] 2(1) show ?case
    by (simp add: can_make_more_calls_def)
qed

declare while_loop.simps [simp del]

text \<open>The state at the head of the loop after \<open>n\<close> complete passes, if the run gets there.\<close>

fun loop_head ::
  "AIGenerator \<Rightarrow> 'w client \<Rightarrow> tool_definition list option \<Rightarrow> 'w tool_manager option \<Rightarrow> string \<Rightarrow>
   nat \<Rightarrow> message list \<Rightarrow> ToolCallState \<Rightarrow> 'w world \<Rightarrow> (message list \<times> ToolCallState \<times> 'w world) option" where
  "loop_head self client tls tm system_content 0 msgs ts w = Some (msgs, ts, w)"
| "loop_head self client tls tm system_content (Suc n) msgs ts w =
     (if can_make_more_calls ts then
        (case loop_body self client tls tm system_content msgs ts w of
           (Inl ex, ts', w') \<Rightarrow> None
         | (Inr msgs', ts', w') \<Rightarrow> loop_head self client tls tm system_content n msgs' ts' w')
      else None)"

text \<open>The expression assigned to \<open>system_content\<close>.\<close>

definition system_content_of :: "AIGenerator \<Rightarrow> string option \<Rightarrow> string" where
  "system_content_of self conversation_history =
     (if truthy conversation_history
      then SYSTEM_PROMPT self @ ''\<newline>\<newline>Previous conversation:\<newline>'' @ the conversation_history
      else SYSTEM_PROMPT self)"

text \<open>
  \<open>generate_response\<close>, run on an external state with an empty log. It returns what the
  call returns or raises, the final tool state and the final world.
\<close>

definition generate_response ::
  "AIGenerator \<Rightarrow> 'w client \<Rightarrow> string \<Rightarrow> string option \<Rightarrow> tool_definition list option \<Rightarrow>
   'w tool_manager option \<Rightarrow> int \<Rightarrow> 'w \<Rightarrow> (error + string) \<times> ToolCallState \<times> 'w world" where
  "generate_response self client query conversation_history tls tm max_tool_rounds x =
     (let system_content = system_content_of self conversation_history;
          msgs = [\<lparr>role = User, message_content = Text query\<rparr>];
          tool_state = ToolCallState_init max_tool_rounds
      in case while_loop self client tls tm system_content msgs tool_state \<lparr>ext = x, trace = []\<rparr> of
           (Raise e, ts', w') \<Rightarrow> (Inl e, ts', w')
         | (Return t, ts', w') \<Rightarrow> (Inr t, ts', w')
         | (Break msgs', ts', w') \<Rightarrow>
             (case make_final_response self client msgs' system_content w' of
                (out, w'') \<Rightarrow> (out, ts', w''))
         | (Exhausted msgs', ts', w') \<Rightarrow>
             (case make_final_response self client msgs' system_content w' of
                (out, w'') \<Rightarrow> (out, ts', w'')))"

section \<open>Facts about the model\<close>

subsection \<open>Effects of the calls on the log\<close>

lemma messages_create_eq:
  "messages_create client req w =
     (fst (client req (ext w)),
      \<lparr>ext = snd (client req (ext w)), trace = trace w @ [BackendCall req (fst (client req (ext w)))]\<rparr>)"
  by (simp add: messages_create_def case_prod_beta)

lemma messages_create_trace:
  "messages_create client req w = (out, w') \<Longrightarrow> trace w' = trace w @ [BackendCall req out]"
  by (auto simp: messages_create_def split: prod.splits)

lemma execute_tool_trace:
  "execute_tool manager nm inp w = (out, w') \<Longrightarrow> trace w' = trace w @ [ToolCall nm inp out]"
  by (auto simp: execute_tool_def split: prod.splits)

lemma tool_blocks_loop_cases [consumes 1, case_names Nil Text NoManager Raised Returned]:
  assumes "tool_blocks_loop tm bs rs ex ts w = (out, ts', w')"
    and "bs = [] \<Longrightarrow> out = Inr (rs, ex) \<Longrightarrow> ts' = ts \<Longrightarrow> w' = w \<Longrightarrow> P"
    and "\<And>t bs'. bs = TextBlock t # bs' \<Longrightarrow> tool_blocks_loop tm bs' rs ex ts w = (out, ts', w') \<Longrightarrow> P"
    and "\<And>i nm inp bs'. bs = ToolUseBlock i nm inp # bs' \<Longrightarrow> tm = None \<Longrightarrow>
           out = Inl AttributeError \<Longrightarrow> ts' = ts \<Longrightarrow> w' = w \<Longrightarrow> P"
    and "\<And>i nm inp bs' manager e. bs = ToolUseBlock i nm inp # bs' \<Longrightarrow> tm = Some manager \<Longrightarrow>
           execute_tool manager nm inp w = (Inl e, w') \<Longrightarrow> out = Inl e \<Longrightarrow> ts' = ts \<Longrightarrow> P"
    and "\<And>i nm inp bs' manager res w1. bs = ToolUseBlock i nm inp # bs' \<Longrightarrow> tm = Some manager \<Longrightarrow>
           execute_tool manager nm inp w = (Inr res, w1) \<Longrightarrow>
           tool_blocks_loop tm bs'
             (rs @ [\<lparr>result_type = ''tool_result'', tool_use_id = i, result_content = res\<rparr>])
             True (add_tool_call ts nm inp res) w1 = (out, ts', w') \<Longrightarrow> P"
  shows P
proof (cases bs)
  case Nil
  with assms(1,2) show ?thesis by simp
next
  case (Cons b bs')
  show ?thesis
  proof (cases b)
    case (TextBlock t)
    with Cons assms(1,3) show ?thesis by simp
  next
    case (ToolUseBlock i nm inp)
    show ?thesis
    proof (cases tm)
      case None
      with Cons ToolUseBlock assms(1,4) show ?thesis by simp
    next
      case (Some manager)
      obtain r w1 where e: "execute_tool manager nm inp w = (r, w1)"
        by (cases "execute_tool manager nm inp w")
      show ?thesis
      proof (cases r)
        case (Inl err)
        with Cons ToolUseBlock Some e assms(1) assms(5)[of i nm inp bs' manager err] show ?thesis by simp
      next
        case (Inr res)
        with Cons ToolUseBlock Some e assms(1) assms(6)[of i nm inp bs' manager res w1] show ?thesis by simp
      qed
    qed
  qed
qed

lemma tool_blocks_loop_Inr:
  "tool_blocks_loop tm bs rs ex ts w = (Inr (rs', ex'), ts', w') \<Longrightarrow>
   \<exists>nr. rs' = rs @ nr \<and> map tool_use_id nr = map fst (invocations bs) \<and>
        (\<forall>r \<in> set nr. result_type r = ''tool_result'') \<and>
        ex' = (ex \<or> invocations bs \<noteq> []) \<and>
        trace w' = trace w @ map2 executed_as (invocations bs) nr"
proof (induction bs arbitrary: rs ex ts w)
  case Nil
  then show ?case by simp
next
  case (Cons b bs)
  from Cons.prems show ?case
  proof (cases rule: tool_blocks_loop_cases)
    case Nil
    then show ?thesis by simp
  next
    case (Text t bs')
    with Cons.IH[of rs ex ts w] show ?thesis by simp
  next
    case (NoManager i nm inp bs')
    then show ?thesis by simp
  next
    case (Raised i nm inp bs' manager e)
    then show ?thesis by simp
  next
    case (Returned i nm inp bs' manager res w1)
    let ?r = "\<lparr>result_type = ''tool_result'', tool_use_id = i, result_content = res\<rparr>"
    from Returned Cons.IH[of "rs @ [?r]" True "add_tool_call ts nm inp res" w1]
    obtain nr where nr: "rs' = (rs @ [?r]) @ nr" "map tool_use_id nr = map fst (invocations bs)"
      "\<forall>r \<in> set nr. result_type r = ''tool_result''" "ex' = True"
      "trace w' = trace w1 @ map2 executed_as (invocations bs) nr"
      by auto
    from Returned have "trace w1 = trace w @ [ToolCall nm inp (Inr res)]"
      by (simp add: execute_tool_trace)
    with nr Returned(1) show ?thesis
      by (intro exI[of _ "?r # nr"]) simp
  qed
qed

lemma backend_requests_append:
  "backend_requests (xs @ ys) = backend_requests xs @ backend_requests ys"
  by (induction xs rule: backend_requests.induct) simp_all

lemma tool_executions_append:
  "tool_executions (xs @ ys) = tool_executions xs @ tool_executions ys"
  by (induction xs rule: tool_executions.induct) simp_all

lemma returned_executions_append:
  "returned_executions (xs @ ys) = returned_executions xs @ returned_executions ys"
  by (induction xs rule: returned_executions.induct) simp_all

lemma backend_requests_executed:
  "length nr = length ivs \<Longrightarrow> backend_requests (map2 executed_as ivs nr) = []"
  by (induction ivs nr rule: list_induct2') auto

lemma truthy_len: "(if truthy res then len res else 0) = len res"
  by (cases res) auto

lemma tool_blocks_loop_none:
  "invocations bs = [] \<Longrightarrow> tool_blocks_loop tm bs rs ex ts w = (Inr (rs, ex), ts, w)"
  by (induction bs rule: invocations.induct) simp_all

lemma execute_tool_round_none:
  "invocations (content resp) = [] \<Longrightarrow>
   execute_tool_round resp msgs tm ts w =
     (Inr (msgs @ [\<lparr>role = Assistant, message_content = Blocks (content resp)\<rparr>], False), ts, w)"
  by (simp add: execute_tool_round_def tool_blocks_loop_none)

lemma execute_tool_round_Inr:
  assumes "execute_tool_round resp msgs tm ts w = (Inr (msgs', ex), ts', w')"
  shows "\<exists>nr. map tool_use_id nr = map fst (invocations (content resp)) \<and>
          (\<forall>r \<in> set nr. result_type r = ''tool_result'') \<and>
          ex = (invocations (content resp) \<noteq> []) \<and>
          trace w' = trace w @ map2 executed_as (invocations (content resp)) nr \<and>
          msgs' = msgs @ [\<lparr>role = Assistant, message_content = Blocks (content resp)\<rparr>] @
                  (if ex then [\<lparr>role = User, message_content = ToolResults nr\<rparr>] else [])"
proof -
  from assms obtain rs where
    l: "tool_blocks_loop tm (content resp) [] False ts w = (Inr (rs, ex), ts', w')"
    and m: "msgs' = (if rs \<noteq> []
        then (msgs @ [\<lparr>role = Assistant, message_content = Blocks (content resp)\<rparr>]) @
             [\<lparr>role = User, message_content = ToolResults rs\<rparr>]
        else msgs @ [\<lparr>role = Assistant, message_content = Blocks (content resp)\<rparr>])"
    by (auto simp: execute_tool_round_def Let_def split: prod.splits sum.splits)
  from tool_blocks_loop_Inr[OF l] have
    p: "map tool_use_id rs = map fst (invocations (content resp))"
       "\<forall>r \<in> set rs. result_type r = ''tool_result''"
       "ex = (invocations (content resp) \<noteq> [])"
       "trace w' = trace w @ map2 executed_as (invocations (content resp)) rs"
    by auto
  from p(1) have "length rs = length (invocations (content resp))"
    by (metis length_map)
  with p(3) have "ex = (rs \<noteq> [])" by auto
  with m p show ?thesis by (intro exI[of _ rs]) auto
qed

lemma loop_body_cases [consumes 1, case_names BackendRaise Direct ToolRaise Break Continue]:
  assumes "loop_body self client tls tm sc msgs ts w = (out, ts', w')"
    and "\<And>e. messages_create client (api_params self tls tm msgs sc) w = (Inl e, w') \<Longrightarrow>
           out = Inl (Raise e) \<Longrightarrow> ts' = ts \<Longrightarrow> P"
    and "\<And>resp. messages_create client (api_params self tls tm msgs sc) w = (Inr resp, w') \<Longrightarrow>
           stop_reason resp \<noteq> ''tool_use'' \<Longrightarrow>
           out = Inl (case content0_text resp of Inl e \<Rightarrow> Raise e | Inr t \<Rightarrow> Return t) \<Longrightarrow>
           ts' = ts \<Longrightarrow> P"
    and "\<And>resp w1 e. messages_create client (api_params self tls tm msgs sc) w = (Inr resp, w1) \<Longrightarrow>
           stop_reason resp = ''tool_use'' \<Longrightarrow>
           execute_tool_round resp msgs tm ts w1 = (Inl e, ts', w') \<Longrightarrow> out = Inl (Raise e) \<Longrightarrow> P"
    and "\<And>resp w1 msgs2. messages_create client (api_params self tls tm msgs sc) w = (Inr resp, w1) \<Longrightarrow>
           stop_reason resp = ''tool_use'' \<Longrightarrow>
           execute_tool_round resp msgs tm ts w1 = (Inr (msgs2, False), ts', w') \<Longrightarrow>
           out = Inl (Break msgs2) \<Longrightarrow> P"
    and "\<And>resp w1 msgs2 ts2. messages_create client (api_params self tls tm msgs sc) w = (Inr resp, w1) \<Longrightarrow>
           stop_reason resp = ''tool_use'' \<Longrightarrow>
           execute_tool_round resp msgs tm ts w1 = (Inr (msgs2, True), ts2, w') \<Longrightarrow>
           out = Inr msgs2 \<Longrightarrow> ts' = increment_round ts2 \<Longrightarrow> P"
  shows P
proof -
  obtain r w1 where c: "messages_create client (api_params self tls tm msgs sc) w = (r, w1)"
    by (cases "messages_create client (api_params self tls tm msgs sc) w")
  show ?thesis
  proof (cases r)
    case (Inl e)
    with c assms(1) assms(2)[of e] show ?thesis by (simp add: loop_body_def)
  next
    case (Inr resp)
    show ?thesis
    proof (cases "stop_reason resp = ''tool_use''")
      case False
      with c Inr assms(1) assms(3)[of resp] show ?thesis
        by (simp add: loop_body_def split: sum.splits)
    next
      case True
      obtain r2 ts2 w2 where x: "execute_tool_round resp msgs tm ts w1 = (r2, ts2, w2)"
        by (cases "execute_tool_round resp msgs tm ts w1")
      show ?thesis
      proof (cases r2)
        case (Inl e)
        with c Inr True x assms(1) assms(4)[of resp w1 e] show ?thesis
          by (simp add: loop_body_def)
      next
        case r2: (Inr p)
        obtain msgs2 ex where p: "p = (msgs2, ex)" by (cases p)
        show ?thesis
        proof (cases ex)
          case True
          with c Inr \<open>stop_reason resp = ''tool_use''\<close> x r2 p assms(1) assms(6)[of resp w1 msgs2 ts2]
          show ?thesis by (simp add: loop_body_def)
        next
          case False
          with c Inr \<open>stop_reason resp = ''tool_use''\<close> x r2 p assms(1) assms(5)[of resp w1 msgs2]
          show ?thesis by (simp add: loop_body_def)
        qed
      qed
    qed
  qed
qed

lemma while_loop_rule:
  assumes "I msgs ts w"
    and step: "\<And>msgs ts w msgs' ts' w'. I msgs ts w \<Longrightarrow> can_make_more_calls ts \<Longrightarrow>
           loop_body self client tls tm sc msgs ts w = (Inr msgs', ts', w') \<Longrightarrow> I msgs' ts' w'"
    and leave: "\<And>msgs ts w ex ts' w'. I msgs ts w \<Longrightarrow> can_make_more_calls ts \<Longrightarrow>
           loop_body self client tls tm sc msgs ts w = (Inl ex, ts', w') \<Longrightarrow> Q ex ts' w'"
    and exhausted: "\<And>msgs ts w. I msgs ts w \<Longrightarrow> \<not> can_make_more_calls ts \<Longrightarrow> Q (Exhausted msgs) ts w"
    and run: "while_loop self client tls tm sc msgs ts w = (ex, ts', w')"
  shows "Q ex ts' w'"
  using assms(1) run
proof (induction "nat (max_rounds ts - current_round ts)" arbitrary: msgs ts w rule: less_induct)
  case less
  show ?case
  proof (cases "can_make_more_calls ts")
    case False
    with less.prems exhausted[of msgs ts w] show ?thesis
      by (simp add: while_loop.simps)
  next
    case True
    obtain out ts1 w1 where b: "loop_body self client tls tm sc msgs ts w = (out, ts1, w1)"
      by (cases "loop_body self client tls tm sc msgs ts w")
    show ?thesis
    proof (cases out)
      case (Inl ex1)
      with True b less.prems leave[of msgs ts w ex1 ts1 w1] show ?thesis
        by (simp add: while_loop.simps)
    next
      case (Inr msgs1)
      with True b less.prems have r: "while_loop self client tls tm sc msgs1 ts1 w1 = (ex, ts', w')"
        by (simp add: while_loop.simps)
      from b Inr True loop_body_rounds[OF b]
      have "nat (max_rounds ts1 - current_round ts1) < nat (max_rounds ts - current_round ts)"
        by (simp add: can_make_more_calls_def)
      moreover from step[of msgs ts w msgs1 ts1 w1] less.prems(1) True b Inr have "I msgs1 ts1 w1"
        by simp
      ultimately show ?thesis using less.hyps[of ts1 msgs1 w1] r by blast
    qed
  qed
qed

lemma loop_head_while_loop:
  "loop_head self client tls tm sc n msgs0 ts0 w0 = Some (msgs, ts, w) \<Longrightarrow>
   while_loop self client tls tm sc msgs0 ts0 w0 = while_loop self client tls tm sc msgs ts w"
proof (induction n arbitrary: msgs0 ts0 w0)
  case 0
  then show ?case by simp
next
  case (Suc n)
  from Suc.prems have c: "can_make_more_calls ts0"
    by (simp split: if_splits)
  obtain out ts1 w1 where b: "loop_body self client tls tm sc msgs0 ts0 w0 = (out, ts1, w1)"
    by (cases "loop_body self client tls tm sc msgs0 ts0 w0")
  with Suc.prems c obtain msgs1 where o: "out = Inr msgs1"
    by (cases out) simp_all
  with Suc.prems c b have "loop_head self client tls tm sc n msgs1 ts1 w1 = Some (msgs, ts, w)"
    by simp
  from Suc.IH[OF this] c b o show ?case
    by (subst while_loop.simps) simp
qed

subsection \<open>Concrete runs\<close>

text \<open>The definitions a concrete run unfolds.\<close>

lemmas run_defs =
  Let_def generate_response_def system_content_of_def loop_body_def make_final_response_def final_params_def
  execute_tool_round_def api_params_def messages_create_def execute_tool_def
  ToolCallState_init_def can_make_more_calls_def increment_round_def add_tool_call_def
  AIGenerator_init_def scripted_client_def returning_manager_def raising_manager_def
  tool_use_response_def empty_tool_use_response_def end_turn_response_def mock_tools_def

subsection \<open>The invocation log holds the executions that returned\<close>

lemma tool_blocks_loop_tracked:
  "tool_blocks_loop tm bs rs ex ts w = (out, ts', w') \<Longrightarrow> tracked ts w \<Longrightarrow> no_raise (trace w) \<Longrightarrow>
   tracked ts' w' \<and>
   (no_raise (trace w') \<or> (\<exists>e. out = Inl e \<and> aborted_by e (trace w')))"
proof (induction bs arbitrary: rs ex ts w)
  case Nil
  then show ?case by simp
next
  case (Cons b bs)
  from Cons.prems(1) show ?case
  proof (cases rule: tool_blocks_loop_cases)
    case Nil
    then show ?thesis by simp
  next
    case (Text t bs')
    with Cons.IH[of rs ex ts w] Cons.prems show ?thesis by simp
  next
    case (NoManager i nm inp bs')
    with Cons.prems show ?thesis by simp
  next
    case (Raised i nm inp bs' manager e)
    from Raised(3) have t: "trace w' = trace w @ [ToolCall nm inp (Inl e)]"
      by (rule execute_tool_trace)
    with Cons.prems Raised show ?thesis
      by (auto simp: tracked_def aborted_by_def returned_executions_append)
  next
    case (Returned i nm inp bs' manager res w1)
    from Returned(3) have t: "trace w1 = trace w @ [ToolCall nm inp (Inr res)]"
      by (rule execute_tool_trace)
    with Cons.prems have "tracked (add_tool_call ts nm inp res) w1" "no_raise (trace w1)"
      by (simp_all add: tracked_def no_raise_def add_tool_call_def returned_executions_append truthy_len)
    with Cons.IH[of _ True "add_tool_call ts nm inp res" w1] Returned show ?thesis
      by simp
  qed
qed

lemma execute_tool_round_tracked:
  assumes "execute_tool_round resp msgs tm ts w = (out, ts', w')" "tracked ts w" "no_raise (trace w)"
  shows "tracked ts' w' \<and> (no_raise (trace w') \<or> (\<exists>e. out = Inl e \<and> aborted_by e (trace w')))"
proof -
  obtain r where l: "tool_blocks_loop tm (content resp) [] False ts w = (r, ts', w')"
    and o: "\<And>e. r = Inl e \<Longrightarrow> out = Inl e"
    using assms(1)
    by (cases "tool_blocks_loop tm (content resp) [] False ts w")
       (auto simp: execute_tool_round_def Let_def split: sum.splits prod.splits)
  from tool_blocks_loop_tracked[OF l assms(2,3)] o show ?thesis by auto
qed

lemma messages_create_tracked:
  assumes "messages_create client req w = (out, w')" "tracked ts w" "no_raise (trace w)"
  shows "tracked ts w'" "no_raise (trace w')"
  using assms messages_create_trace[OF assms(1)]
  by (simp_all add: tracked_def no_raise_def returned_executions_append)

lemma loop_body_tracked:
  assumes "loop_body self client tls tm sc msgs ts w = (out, ts', w')" "tracked ts w" "no_raise (trace w)"
  shows "tracked ts' w' \<and>
         (no_raise (trace w') \<or> (\<exists>e. out = Inl (Raise e) \<and> aborted_by e (trace w')))"
  using assms(1)
proof (cases rule: loop_body_cases)
  case (BackendRaise e)
  with messages_create_tracked[OF BackendRaise(1) assms(2,3)] show ?thesis by simp
next
  case (Direct resp)
  with messages_create_tracked[OF Direct(1) assms(2,3)] show ?thesis by simp
next
  case (ToolRaise resp w1 e)
  from execute_tool_round_tracked[OF ToolRaise(3) messages_create_tracked[OF ToolRaise(1) assms(2,3)]]
    ToolRaise(4)
  show ?thesis by auto
next
  case (Break resp w1 msgs2)
  from execute_tool_round_tracked[OF Break(3) messages_create_tracked[OF Break(1) assms(2,3)]]
  show ?thesis by auto
next
  case (Continue resp w1 msgs2 ts2)
  from execute_tool_round_tracked[OF Continue(3) messages_create_tracked[OF Continue(1) assms(2,3)]]
    Continue(5)
  show ?thesis by (auto simp: tracked_def increment_round_def)
qed

lemma while_loop_tracked:
  assumes "while_loop self client tls tm sc msgs ts w = (ex, ts', w')" "tracked ts w" "no_raise (trace w)"
  shows "tracked ts' w' \<and> (no_raise (trace w') \<or> (\<exists>e. ex = Raise e \<and> aborted_by e (trace w')))"
proof (rule while_loop_rule[where I = "\<lambda>msgs ts w. tracked ts w \<and> no_raise (trace w)"
      and Q = "\<lambda>ex ts' w'. tracked ts' w' \<and> (no_raise (trace w') \<or> (\<exists>e. ex = Raise e \<and> aborted_by e (trace w')))",
      OF _ _ _ _ assms(1)], goal_cases)
  case 1
  from assms show ?case by simp
next
  case (2 msgs ts w msgs' ts' w')
  with loop_body_tracked[OF 2(3)] show ?case by auto
next
  case (3 msgs ts w ex ts' w')
  with loop_body_tracked[OF 3(3)] show ?case by auto
next
  case (4 msgs ts w)
  then show ?case by simp
qed

lemma make_final_response_trace:
  "make_final_response self client msgs sc w = (out, w') \<Longrightarrow>
   \<exists>req r. trace w' = trace w @ [BackendCall req r] \<and> tools req = None \<and> tool_choice req = None"
  by (auto simp: make_final_response_def final_params_def split: prod.splits sum.splits
           dest!: messages_create_trace)

lemma generate_response_tracked:
  assumes "generate_response self client query h tls tm n x = (out, ts', w')"
  shows "tracked ts' w' \<and> (no_raise (trace w') \<or> (\<exists>e. out = Inl e \<and> aborted_by e (trace w')))"
proof -
  let ?sc = "system_content_of self h"
  let ?m = "[\<lparr>role = User, message_content = Text query\<rparr>]"
  let ?w = "\<lparr>ext = x, trace = []\<rparr> :: 'a world"
  obtain ex ts1 w1 where l: "while_loop self client tls tm ?sc ?m (ToolCallState_init n) ?w = (ex, ts1, w1)"
    by (cases "while_loop self client tls tm ?sc ?m (ToolCallState_init n) ?w")
  have "tracked (ToolCallState_init n) ?w" "no_raise (trace ?w)"
    by (simp_all add: tracked_def no_raise_def ToolCallState_init_def)
  from while_loop_tracked[OF l this]
  have q: "tracked ts1 w1" "no_raise (trace w1) \<or> (\<exists>e. ex = Raise e \<and> aborted_by e (trace w1))"
    by auto
  have fin: "tracked ts1 w2 \<and> no_raise (trace w2)"
    if "make_final_response self client msgs' ?sc w1 = (o2, w2)" "no_raise (trace w1)" for msgs' o2 w2
    using make_final_response_trace[OF that(1)] that(2) q(1)
    by (auto simp: tracked_def no_raise_def returned_executions_append)
  show ?thesis
  proof (cases ex)
    case (Raise e)
    with assms l q show ?thesis by (auto simp: generate_response_def Let_def)
  next
    case (Return t)
    with assms l q show ?thesis by (auto simp: generate_response_def Let_def)
  next
    case (Break msgs')
    obtain o2 w2 where f: "make_final_response self client msgs' ?sc w1 = (o2, w2)"
      by (cases "make_final_response self client msgs' ?sc w1")
    with Break assms l q fin[OF f] show ?thesis by (auto simp: generate_response_def Let_def)
  next
    case (Exhausted msgs')
    obtain o2 w2 where f: "make_final_response self client msgs' ?sc w1 = (o2, w2)"
      by (cases "make_final_response self client msgs' ?sc w1")
    with Exhausted assms l q fin[OF f] show ?thesis by (auto simp: generate_response_def Let_def)
  qed
qed

subsection \<open>Backend calls and records of one pass\<close>

lemma backend_outcomes_append:
  "backend_outcomes (xs @ ys) = backend_outcomes xs @ backend_outcomes ys"
  by (induction xs rule: backend_outcomes.induct) simp_all

lemma length_backend_outcomes: "length (backend_outcomes tr) = length (backend_requests tr)"
  by (induction tr rule: backend_outcomes.induct) simp_all

lemma tool_blocks_loop_log:
  "tool_blocks_loop tm bs rs ex ts w = (out, ts', w') \<Longrightarrow>
   backend_requests (trace w') = backend_requests (trace w) \<and>
   backend_outcomes (trace w') = backend_outcomes (trace w) \<and>
   (\<exists>new. tool_calls_made ts' = tool_calls_made ts @ new \<and>
          (\<forall>c \<in> set new. tc_round c = current_round ts) \<and>
          (\<forall>p. out = Inr p \<longrightarrow> snd p = (ex \<or> new \<noteq> [])))"
proof (induction bs arbitrary: rs ex ts w)
  case Nil
  then show ?case by auto
next
  case (Cons b bs)
  from Cons.prems(1) show ?case
  proof (cases rule: tool_blocks_loop_cases)
    case Nil
    then show ?thesis by simp
  next
    case (Text t bs')
    with Cons.IH[of rs ex ts w] show ?thesis by simp
  next
    case (NoManager i nm inp bs')
    then show ?thesis by simp
  next
    case (Raised i nm inp bs' manager e)
    from execute_tool_trace[OF Raised(3)] Raised show ?thesis
      by (simp add: backend_requests_append backend_outcomes_append)
  next
    case (Returned i nm inp bs' manager res w1)
    let ?ts1 = "add_tool_call ts nm inp res"
    from Returned have r: "tool_blocks_loop tm bs
        (rs @ [\<lparr>result_type = ''tool_result'', tool_use_id = i, result_content = res\<rparr>])
        True ?ts1 w1 = (out, ts', w')"
      by simp
    from Cons.IH[OF r] obtain new where
      n: "backend_requests (trace w') = backend_requests (trace w1)"
         "backend_outcomes (trace w') = backend_outcomes (trace w1)"
         "tool_calls_made ts' = tool_calls_made ?ts1 @ new"
         "\<forall>c \<in> set new. tc_round c = current_round ?ts1"
         "\<forall>p. out = Inr p \<longrightarrow> snd p = True"
      by auto
    let ?c = "\<lparr>tc_round = current_round ts, tc_tool = nm, tc_params = inp,
               tc_result_length = (if truthy res then len res else 0)\<rparr>"
    from n(3,4) have "tool_calls_made ts' = tool_calls_made ts @ (?c # new)"
      "\<forall>c \<in> set (?c # new). tc_round c = current_round ts"
      by (simp_all add: add_tool_call_def)
    moreover from execute_tool_trace[OF Returned(3)] n(1,2)
    have "backend_requests (trace w') = backend_requests (trace w)"
      "backend_outcomes (trace w') = backend_outcomes (trace w)"
      by (simp_all add: backend_requests_append backend_outcomes_append)
    ultimately show ?thesis using n(5)
      by (intro conjI exI[of _ "?c # new"]) simp_all
  qed
qed

lemma execute_tool_round_log:
  assumes "execute_tool_round resp msgs tm ts w = (out, ts', w')"
  shows "backend_requests (trace w') = backend_requests (trace w) \<and>
   backend_outcomes (trace w') = backend_outcomes (trace w) \<and>
   (\<exists>new. tool_calls_made ts' = tool_calls_made ts @ new \<and>
          (\<forall>c \<in> set new. tc_round c = current_round ts) \<and>
          (\<forall>p. out = Inr p \<longrightarrow> snd p = (new \<noteq> [])))"
proof -
  obtain r where l: "tool_blocks_loop tm (content resp) [] False ts w = (r, ts', w')"
    and o: "\<And>p. out = Inr p \<Longrightarrow> \<exists>q. r = Inr q \<and> snd q = snd p"
    using assms
    by (cases "tool_blocks_loop tm (content resp) [] False ts w")
       (auto simp: execute_tool_round_def Let_def split: sum.splits prod.splits)
  from tool_blocks_loop_log[OF l] o show ?thesis
    by (metis (no_types, lifting))
qed

lemma loop_body_log:
  assumes "loop_body self client tls tm sc msgs ts w = (out, ts', w')"
  shows "backend_requests (trace w') = backend_requests (trace w) @ [api_params self tls tm msgs sc] \<and>
         (\<exists>oc. backend_outcomes (trace w') = backend_outcomes (trace w) @ [oc] \<and>
             ((\<exists>m. out = Inr m \<or> out = Inl (Break m)) \<longrightarrow> wants_tool oc)) \<and>
         (\<exists>new. tool_calls_made ts' = tool_calls_made ts @ new \<and>
             (\<forall>c \<in> set new. tc_round c = current_round ts) \<and>
             (\<forall>m. out = Inr m \<longrightarrow> new \<noteq> []))"
  using assms
proof (cases rule: loop_body_cases)
  case (BackendRaise e)
  from messages_create_trace[OF BackendRaise(1)] BackendRaise show ?thesis
    by (simp add: backend_requests_append backend_outcomes_append)
next
  case (Direct resp)
  from messages_create_trace[OF Direct(1)] Direct show ?thesis
    by (auto simp: backend_requests_append backend_outcomes_append split: sum.splits)
next
  case (ToolRaise resp w1 e)
  from messages_create_trace[OF ToolRaise(1)] execute_tool_round_log[OF ToolRaise(3)] ToolRaise
  show ?thesis
    by (auto simp: backend_requests_append backend_outcomes_append)
next
  case (Break resp w1 msgs2)
  from messages_create_trace[OF Break(1)] execute_tool_round_log[OF Break(3)] Break
  show ?thesis
    by (auto simp: backend_requests_append backend_outcomes_append)
next
  case (Continue resp w1 msgs2 ts2)
  from messages_create_trace[OF Continue(1)] execute_tool_round_log[OF Continue(3)] Continue
  show ?thesis
    by (auto simp: backend_requests_append backend_outcomes_append increment_round_def)
qed

subsection \<open>Loop heads and the ways out of the loop\<close>

lemma loop_head_snoc:
  "loop_head self client tls tm sc (Suc n) msgs0 ts0 w0 =
     (case loop_head self client tls tm sc n msgs0 ts0 w0 of
        None \<Rightarrow> None
      | Some (m, t, w) \<Rightarrow> loop_head self client tls tm sc (Suc 0) m t w)"
proof (induction n arbitrary: msgs0 ts0 w0)
  case 0
  show ?case by simp
next
  case (Suc n)
  show ?case
  proof (cases "can_make_more_calls ts0")
    case False
    then show ?thesis by simp
  next
    case True
    obtain out ts1 w1 where b: "loop_body self client tls tm sc msgs0 ts0 w0 = (out, ts1, w1)"
      by (cases "loop_body self client tls tm sc msgs0 ts0 w0")
    show ?thesis
    proof (cases out)
      case (Inl ex)
      with True b show ?thesis by simp
    next
      case (Inr m1)
      have "loop_head self client tls tm sc (Suc (Suc n)) msgs0 ts0 w0 =
            loop_head self client tls tm sc (Suc n) m1 ts1 w1"
        using True b Inr by simp
      also have "\<dots> = (case loop_head self client tls tm sc n m1 ts1 w1 of
                          None \<Rightarrow> None
                        | Some (m, t, w) \<Rightarrow> loop_head self client tls tm sc (Suc 0) m t w)"
        by (rule Suc.IH)
      also have "loop_head self client tls tm sc n m1 ts1 w1 =
                 loop_head self client tls tm sc (Suc n) msgs0 ts0 w0"
        using True b Inr by simp
      finally show ?thesis .
    qed
  qed
qed

lemma loop_head_counts:
  "loop_head self client tls tm sc n msgs0 ts0 w0 = Some (msgs, ts, w) \<Longrightarrow>
   max_rounds ts = max_rounds ts0 \<and>
   current_round ts = current_round ts0 + int n \<and>
   (0 < n \<longrightarrow> current_round ts \<le> max_rounds ts) \<and>
   (\<exists>new. tool_calls_made ts = tool_calls_made ts0 @ new) \<and>
   (\<forall>j. current_round ts0 \<le> j \<and> j < current_round ts \<longrightarrow>
        (\<exists>c \<in> set (tool_calls_made ts). tc_round c = j)) \<and>
   length (backend_requests (trace w)) = length (backend_requests (trace w0)) + n"
proof (induction n arbitrary: msgs0 ts0 w0)
  case 0
  then show ?case by auto
next
  case (Suc n)
  from Suc.prems have c: "can_make_more_calls ts0"
    by (simp split: if_splits)
  obtain out ts1 w1 where b: "loop_body self client tls tm sc msgs0 ts0 w0 = (out, ts1, w1)"
    by (cases "loop_body self client tls tm sc msgs0 ts0 w0")
  with Suc.prems c obtain m1 where o: "out = Inr m1"
    by (cases out) simp_all
  with Suc.prems c b have h: "loop_head self client tls tm sc n m1 ts1 w1 = Some (msgs, ts, w)"
    by simp
  from loop_body_rounds[OF b] o have r1: "max_rounds ts1 = max_rounds ts0"
    "current_round ts1 = current_round ts0 + 1"
    by simp_all
  from loop_body_log[OF b] o obtain new1 where
    q1: "length (backend_requests (trace w1)) = length (backend_requests (trace w0)) + 1"
    and n1: "tool_calls_made ts1 = tool_calls_made ts0 @ new1" "new1 \<noteq> []"
      "\<forall>c \<in> set new1. tc_round c = current_round ts0"
    by auto
  from Suc.IH[OF h] obtain new where
    ih: "max_rounds ts = max_rounds ts1" "current_round ts = current_round ts1 + int n"
      "0 < n \<longrightarrow> current_round ts \<le> max_rounds ts"
      "tool_calls_made ts = tool_calls_made ts1 @ new"
      "\<forall>j. current_round ts1 \<le> j \<and> j < current_round ts \<longrightarrow>
           (\<exists>c \<in> set (tool_calls_made ts). tc_round c = j)"
      "length (backend_requests (trace w)) = length (backend_requests (trace w1)) + n"
    by auto
  from n1(2) obtain c0 where c0: "c0 \<in> set new1" by (cases new1) auto
  with n1 ih(4) have first: "c0 \<in> set (tool_calls_made ts)" "tc_round c0 = current_round ts0"
    by simp_all
  have "\<exists>c \<in> set (tool_calls_made ts). tc_round c = j"
    if "current_round ts0 \<le> j" "j < current_round ts" for j
  proof (cases "j = current_round ts0")
    case True
    with first show ?thesis by blast
  next
    case False
    with that r1 ih(5) show ?thesis by simp
  qed
  moreover from c r1 ih(1,2,3) have "current_round ts \<le> max_rounds ts"
    by (cases n) (simp_all add: can_make_more_calls_def)
  ultimately show ?case using r1 ih(1,2,4,6) n1(1) q1
    by simp
qed

lemma while_loop_leaves_from_head:
  assumes "while_loop self client tls tm sc msgs0 ts0 w0 = (ex, ts', w')"
  shows "\<exists>n msgs ts w. loop_head self client tls tm sc n msgs0 ts0 w0 = Some (msgs, ts, w) \<and>
           (if can_make_more_calls ts
            then loop_body self client tls tm sc msgs ts w = (Inl ex, ts', w')
            else ex = Exhausted msgs \<and> ts' = ts \<and> w' = w)"
proof (rule while_loop_rule[where
      I = "\<lambda>msgs ts w. \<exists>n. loop_head self client tls tm sc n msgs0 ts0 w0 = Some (msgs, ts, w)"
      and Q = "\<lambda>ex ts' w'. \<exists>n msgs ts w. loop_head self client tls tm sc n msgs0 ts0 w0 = Some (msgs, ts, w) \<and>
           (if can_make_more_calls ts
            then loop_body self client tls tm sc msgs ts w = (Inl ex, ts', w')
            else ex = Exhausted msgs \<and> ts' = ts \<and> w' = w)",
      OF _ _ _ _ assms], goal_cases)
  case 1
  have "loop_head self client tls tm sc 0 msgs0 ts0 w0 = Some (msgs0, ts0, w0)" by simp
  then show ?case by blast
next
  case (2 msgs ts w msgs' ts' w')
  then obtain n where "loop_head self client tls tm sc n msgs0 ts0 w0 = Some (msgs, ts, w)"
    by blast
  with 2(2,3) have "loop_head self client tls tm sc (Suc n) msgs0 ts0 w0 = Some (msgs', ts', w')"
    by (subst loop_head_snoc) simp
  then show ?case by blast
next
  case (3 msgs ts w ex ts' w')
  then obtain n where "loop_head self client tls tm sc n msgs0 ts0 w0 = Some (msgs, ts, w)"
    by blast
  with 3(2,3) show ?case
    by (intro exI[of _ n] exI[of _ msgs] exI[of _ ts] exI[of _ w]) simp
next
  case (4 msgs ts w)
  then obtain n where "loop_head self client tls tm sc n msgs0 ts0 w0 = Some (msgs, ts, w)"
    by blast
  with 4(2) show ?case
    by (intro exI[of _ n] exI[of _ msgs] exI[of _ ts] exI[of _ w]) simp
qed

lemma generate_response_cases [consumes 1, case_names Exhausted Broke Returned Raised]:
  assumes "generate_response self client query h tls tm N x = (out, ts', w')"
    and "\<And>n msgs w1.
           loop_head self client tls tm (system_content_of self h) n
             [\<lparr>role = User, message_content = Text query\<rparr>] (ToolCallState_init N)
             \<lparr>ext = x, trace = []\<rparr> = Some (msgs, ts', w1) \<Longrightarrow>
           \<not> can_make_more_calls ts' \<Longrightarrow>
           make_final_response self client msgs (system_content_of self h) w1 = (out, w') \<Longrightarrow> P"
    and "\<And>n msgs ts w msgs' w1.
           loop_head self client tls tm (system_content_of self h) n
             [\<lparr>role = User, message_content = Text query\<rparr>] (ToolCallState_init N)
             \<lparr>ext = x, trace = []\<rparr> = Some (msgs, ts, w) \<Longrightarrow>
           can_make_more_calls ts \<Longrightarrow>
           loop_body self client tls tm (system_content_of self h) msgs ts w = (Inl (Break msgs'), ts', w1) \<Longrightarrow>
           make_final_response self client msgs' (system_content_of self h) w1 = (out, w') \<Longrightarrow> P"
    and "\<And>n msgs ts w t.
           loop_head self client tls tm (system_content_of self h) n
             [\<lparr>role = User, message_content = Text query\<rparr>] (ToolCallState_init N)
             \<lparr>ext = x, trace = []\<rparr> = Some (msgs, ts, w) \<Longrightarrow>
           can_make_more_calls ts \<Longrightarrow>
           loop_body self client tls tm (system_content_of self h) msgs ts w = (Inl (Return t), ts', w') \<Longrightarrow>
           out = Inr t \<Longrightarrow> P"
    and "\<And>n msgs ts w e.
           loop_head self client tls tm (system_content_of self h) n
             [\<lparr>role = User, message_content = Text query\<rparr>] (ToolCallState_init N)
             \<lparr>ext = x, trace = []\<rparr> = Some (msgs, ts, w) \<Longrightarrow>
           can_make_more_calls ts \<Longrightarrow>
           loop_body self client tls tm (system_content_of self h) msgs ts w = (Inl (Raise e), ts', w') \<Longrightarrow>
           out = Inl e \<Longrightarrow> P"
  shows P
proof -
  let ?sc = "system_content_of self h"
  let ?m = "[\<lparr>role = User, message_content = Text query\<rparr>]"
  let ?w = "\<lparr>ext = x, trace = []\<rparr> :: 'a world"
  obtain ex ts1 w1 where l: "while_loop self client tls tm ?sc ?m (ToolCallState_init N) ?w = (ex, ts1, w1)"
    by (cases "while_loop self client tls tm ?sc ?m (ToolCallState_init N) ?w")
  from while_loop_leaves_from_head[OF l] obtain n msgs ts w where
    hd: "loop_head self client tls tm ?sc n ?m (ToolCallState_init N) ?w = Some (msgs, ts, w)"
    and lv: "if can_make_more_calls ts
            then loop_body self client tls tm ?sc msgs ts w = (Inl ex, ts1, w1)
            else ex = Exhausted msgs \<and> ts1 = ts \<and> w1 = w"
    by blast
  show ?thesis
  proof (cases ex)
    case (Raise e)
    with lv have c: "can_make_more_calls ts" by (auto split: if_splits)
    from assms(1) l Raise have "out = Inl e" "ts' = ts1" "w' = w1"
      by (simp_all add: generate_response_def Let_def)
    with assms(5)[OF hd c, of e] lv c Raise show ?thesis by simp
  next
    case (Return t)
    with lv have c: "can_make_more_calls ts" by (auto split: if_splits)
    from assms(1) l Return have "out = Inr t" "ts' = ts1" "w' = w1"
      by (simp_all add: generate_response_def Let_def)
    with assms(4)[OF hd c, of t] lv c Return show ?thesis by simp
  next
    case (Break msgs')
    with lv have c: "can_make_more_calls ts" by (auto split: if_splits)
    from assms(1) l Break have "make_final_response self client msgs' ?sc w1 = (out, w')" "ts' = ts1"
      by (auto simp: generate_response_def Let_def split: prod.splits)
    with assms(3)[OF hd c, of msgs' w1] lv c Break show ?thesis by simp
  next
    case (Exhausted msgs')
    from assms(1) l Exhausted have f: "make_final_response self client msgs' ?sc w1 = (out, w')" "ts' = ts1"
      by (auto simp: generate_response_def Let_def split: prod.splits)
    show ?thesis
    proof (cases "can_make_more_calls ts")
      case True
      with lv Exhausted have "loop_body self client tls tm ?sc msgs ts w = (Inl (Exhausted msgs'), ts1, w1)"
        by simp
      then have False
        by (cases rule: loop_body_cases) (auto split: sum.splits)
      then show ?thesis ..
    next
      case False
      with lv Exhausted have "msgs' = msgs" "ts1 = ts" "w1 = w" by simp_all
      with assms(2)[of n msgs w1] hd False f show ?thesis by simp
    qed
  qed
qed

subsection \<open>Rounds and backend calls of a run\<close>

lemma loop_head_outcomes:
  "loop_head self client tls tm sc n msgs0 ts0 w0 = Some (msgs, ts, w) \<Longrightarrow>
   \<exists>ocs. backend_outcomes (trace w) = backend_outcomes (trace w0) @ ocs \<and> list_all wants_tool ocs"
proof (induction n arbitrary: msgs0 ts0 w0)
  case 0
  then show ?case by simp
next
  case (Suc n)
  from Suc.prems have c: "can_make_more_calls ts0"
    by (simp split: if_splits)
  obtain out ts1 w1 where b: "loop_body self client tls tm sc msgs0 ts0 w0 = (out, ts1, w1)"
    by (cases "loop_body self client tls tm sc msgs0 ts0 w0")
  with Suc.prems c obtain m1 where o: "out = Inr m1"
    by (cases out) simp_all
  with Suc.prems c b have h: "loop_head self client tls tm sc n m1 ts1 w1 = Some (msgs, ts, w)"
    by simp
  from loop_body_log[OF b] o obtain oc where
    "backend_outcomes (trace w1) = backend_outcomes (trace w0) @ [oc]" "wants_tool oc"
    by auto
  with Suc.IH[OF h] show ?case by auto
qed

lemma generate_response_rounds:
  assumes "0 \<le> N"
    and "generate_response self client query h tls tm N x = (out, ts', w')"
  shows "max_rounds ts' = N \<and> 0 \<le> current_round ts' \<and> current_round ts' \<le> N \<and>
         int (length (backend_requests (trace w'))) \<le> N + 1 \<and>
         (int (length (backend_requests (trace w'))) = N + 1 \<longrightarrow>
            rounds_logged ts' (N - 1) \<and>
            list_all wants_tool (take (nat N) (backend_outcomes (trace w'))))"
  using assms(2)
proof (cases rule: generate_response_cases)
  case (Exhausted n msgs w1)
  from loop_head_counts[OF Exhausted(1)] assms(1) Exhausted(2)
  have k: "max_rounds ts' = N" "current_round ts' = int n" "int n = N"
    "\<forall>j. 0 \<le> j \<and> j < int n \<longrightarrow> (\<exists>c \<in> set (tool_calls_made ts'). tc_round c = j)"
    "length (backend_requests (trace w1)) = n"
    by (cases n; simp add: ToolCallState_init_def can_make_more_calls_def)+
  from loop_head_outcomes[OF Exhausted(1)] have "list_all wants_tool (backend_outcomes (trace w1))"
    by simp
  moreover from make_final_response_trace[OF Exhausted(3)] obtain req r where
    "trace w' = trace w1 @ [BackendCall req r]" by blast
  ultimately show ?thesis using k
    by (simp add: backend_requests_append backend_outcomes_append rounds_logged_def
        length_backend_outcomes)
next
  case (Broke n msgs ts w msgs' w1)
  from loop_head_counts[OF Broke(1)] assms(1) Broke(2)
  have k: "max_rounds ts = N" "current_round ts = int n" "int n < N"
    "\<forall>j. 0 \<le> j \<and> j < int n \<longrightarrow> (\<exists>c \<in> set (tool_calls_made ts). tc_round c = j)"
    "length (backend_requests (trace w)) = n"
    by (simp_all add: ToolCallState_init_def can_make_more_calls_def)
  from loop_head_outcomes[OF Broke(1)] have a: "list_all wants_tool (backend_outcomes (trace w))"
    by simp
  from loop_body_rounds[OF Broke(3)] k have r: "max_rounds ts' = N" "current_round ts' = int n"
    by simp_all
  from loop_body_log[OF Broke(3)] obtain oc new where
    b: "length (backend_requests (trace w1)) = Suc n"
       "backend_outcomes (trace w1) = backend_outcomes (trace w) @ [oc]" "wants_tool oc"
       "tool_calls_made ts' = tool_calls_made ts @ new"
    using k(5) by auto
  from make_final_response_trace[OF Broke(4)] obtain req r where
    f: "trace w' = trace w1 @ [BackendCall req r]" by blast
  from k(4) b(4) have "rounds_logged ts' (int n)"
    by (auto simp: rounds_logged_def)
  moreover from a b have "list_all wants_tool (backend_outcomes (trace w1))" by simp
  moreover from b(1) have "length (backend_outcomes (trace w1)) = Suc n"
    by (simp add: length_backend_outcomes)
  moreover have "rounds_logged ts' (N - 1)" if "1 + int n = N"
  proof -
    from that have "N - 1 = int n" by simp
    with \<open>rounds_logged ts' (int n)\<close> show ?thesis by simp
  qed
  ultimately show ?thesis using k(3) r b(1) f
    by (auto simp: backend_requests_append backend_outcomes_append)
next
  case (Returned n msgs ts w t)
  from loop_head_counts[OF Returned(1)] assms(1) Returned(2)
  have k: "max_rounds ts = N" "current_round ts = int n" "int n < N"
    "length (backend_requests (trace w)) = n"
    by (simp_all add: ToolCallState_init_def can_make_more_calls_def)
  from loop_body_rounds[OF Returned(3)] loop_body_log[OF Returned(3)] k show ?thesis
    by simp
next
  case (Raised n msgs ts w e)
  from loop_head_counts[OF Raised(1)] assms(1) Raised(2)
  have k: "max_rounds ts = N" "current_round ts = int n" "int n < N"
    "length (backend_requests (trace w)) = n"
    by (simp_all add: ToolCallState_init_def can_make_more_calls_def)
  from loop_body_rounds[OF Raised(3)] loop_body_log[OF Raised(3)] k show ?thesis
    by simp
qed

subsection \<open>The requests of a run\<close>

lemma make_final_response_eq:
  "make_final_response self client msgs sc w =
     ((case fst (client (final_params self msgs sc) (ext w)) of Inl e \<Rightarrow> Inl e | Inr r \<Rightarrow> content0_text r),
      \<lparr>ext = snd (client (final_params self msgs sc) (ext w)),
       trace = trace w @ [BackendCall (final_params self msgs sc)
                            (fst (client (final_params self msgs sc) (ext w)))]\<rparr>)"
  by (simp add: make_final_response_def messages_create_eq split: sum.splits)

lemma loop_body_transcript:
  assumes "loop_body self client tls tm sc msgs ts w = (out, ts', w')"
  shows "(\<forall>m. out = Inr m \<or> out = Inl (Break m) \<longrightarrow> (\<exists>more. m = msgs @ more))"
  using assms
proof (cases rule: loop_body_cases)
  case (Break resp w1 msgs2)
  with execute_tool_round_Inr[OF Break(3)] show ?thesis by auto
next
  case (Continue resp w1 msgs2 ts2)
  with execute_tool_round_Inr[OF Continue(3)] show ?thesis by auto
qed (auto split: sum.splits)

lemma loop_head_requests:
  "loop_head self client tls tm sc n msgs0 ts0 w0 = Some (msgs, ts, w) \<Longrightarrow>
   (\<exists>more. msgs = msgs0 @ more) \<and>
   (\<exists>reqs. backend_requests (trace w) = backend_requests (trace w0) @ reqs \<and>
      (\<forall>r \<in> set reqs. \<exists>more. r = api_params self tls tm (msgs0 @ more) sc))"
proof (induction n arbitrary: msgs0 ts0 w0)
  case 0
  then show ?case by simp
next
  case (Suc n)
  from Suc.prems have c: "can_make_more_calls ts0"
    by (simp split: if_splits)
  obtain out ts1 w1 where b: "loop_body self client tls tm sc msgs0 ts0 w0 = (out, ts1, w1)"
    by (cases "loop_body self client tls tm sc msgs0 ts0 w0")
  with Suc.prems c obtain m1 where o: "out = Inr m1"
    by (cases out) simp_all
  with Suc.prems c b have h: "loop_head self client tls tm sc n m1 ts1 w1 = Some (msgs, ts, w)"
    by simp
  from loop_body_transcript[OF b] o obtain more1 where m1: "m1 = msgs0 @ more1"
    by blast
  from loop_body_log[OF b]
  have q1: "backend_requests (trace w1) = backend_requests (trace w0) @ [api_params self tls tm msgs0 sc]"
    by simp
  from Suc.IH[OF h] obtain more reqs where
    ih: "msgs = m1 @ more" "backend_requests (trace w) = backend_requests (trace w1) @ reqs"
      "\<forall>r \<in> set reqs. \<exists>more. r = api_params self tls tm (m1 @ more) sc"
    by blast
  have "\<exists>more. r = api_params self tls tm (msgs0 @ more) sc"
    if "r \<in> set (api_params self tls tm msgs0 sc # reqs)" for r
  proof (cases "r = api_params self tls tm msgs0 sc")
    case True
    then have "r = api_params self tls tm (msgs0 @ []) sc" by simp
    then show ?thesis by blast
  next
    case False
    with that ih(3) obtain more2 where "r = api_params self tls tm (m1 @ more2) sc"
      by auto
    with m1 have "r = api_params self tls tm (msgs0 @ (more1 @ more2)) sc" by simp
    then show ?thesis by blast
  qed
  moreover from ih(1) m1 have "msgs = msgs0 @ (more1 @ more)" by simp
  moreover from ih(2) q1
  have "backend_requests (trace w) = backend_requests (trace w0) @ (api_params self tls tm msgs0 sc # reqs)"
    by simp
  ultimately show ?case by blast
qed

lemma generate_response_requests:
  assumes "generate_response self client query h tls tm N x = (out, ts', w')"
    and "req \<in> set (backend_requests (trace w'))"
  shows "\<exists>more. req = api_params self tls tm (\<lparr>role = User, message_content = Text query\<rparr> # more)
                        (system_content_of self h) \<or>
               req = final_params self (\<lparr>role = User, message_content = Text query\<rparr> # more)
                        (system_content_of self h)"
proof -
  let ?sc = "system_content_of self h"
  let ?u = "\<lparr>role = User, message_content = Text query\<rparr>"
  let ?P = "\<lambda>r. \<exists>more. r = api_params self tls tm (?u # more) ?sc \<or> r = final_params self (?u # more) ?sc"
  have head: "(\<exists>more. msgs = ?u # more) \<and> (\<forall>r \<in> set (backend_requests (trace w)). ?P r)"
    if "loop_head self client tls tm ?sc n [?u] (ToolCallState_init N) \<lparr>ext = x, trace = []\<rparr> = Some (msgs, ts, w)"
    for n msgs ts w
    using loop_head_requests[OF that] by auto
  have body: "(\<forall>r \<in> set (backend_requests (trace w1)). ?P r) \<and>
              (\<forall>m. out1 = Inl (Break m) \<longrightarrow> (\<exists>more. m = ?u # more))"
    if "loop_head self client tls tm ?sc n [?u] (ToolCallState_init N) \<lparr>ext = x, trace = []\<rparr> = Some (msgs, ts, w)"
      "loop_body self client tls tm ?sc msgs ts w = (out1, ts1, w1)"
    for n msgs ts w out1 ts1 w1
  proof -
    from head[OF that(1)] obtain more where m: "msgs = ?u # more"
      and a: "\<forall>r \<in> set (backend_requests (trace w)). ?P r" by blast
    from m have "?P (api_params self tls tm msgs ?sc)" by blast
    with a loop_body_log[OF that(2)] have "\<forall>r \<in> set (backend_requests (trace w1)). ?P r"
      by auto
    moreover from loop_body_transcript[OF that(2)] m
    have "\<forall>m. out1 = Inl (Break m) \<longrightarrow> (\<exists>more. m = ?u # more)"
      by auto
    ultimately show ?thesis by blast
  qed
  from assms(1) have "\<forall>r \<in> set (backend_requests (trace w')). ?P r"
  proof (cases rule: generate_response_cases)
    case (Exhausted n msgs w1)
    from head[OF Exhausted(1)] obtain more where m: "msgs = ?u # more"
      and a: "\<forall>r \<in> set (backend_requests (trace w1)). ?P r" by blast
    from m have "?P (final_params self msgs ?sc)" by blast
    with a Exhausted(3) show ?thesis
      by (auto simp: make_final_response_eq backend_requests_append)
  next
    case (Broke n msgs ts w msgs' w1)
    from body[OF Broke(1,3)] obtain more where m: "msgs' = ?u # more"
      and a: "\<forall>r \<in> set (backend_requests (trace w1)). ?P r" by blast
    from m have "?P (final_params self msgs' ?sc)" by blast
    with a Broke(4) show ?thesis
      by (auto simp: make_final_response_eq backend_requests_append)
  next
    case (Returned n msgs ts w t)
    from body[OF Returned(1,3)] show ?thesis by blast
  next
    case (Raised n msgs ts w e)
    from body[OF Raised(1,3)] show ?thesis by blast
  qed
  with assms(2) show ?thesis by blast
qed

lemma api_params_fields:
  "model (api_params self tls tm msgs sc) = bp_model (self_base_params self)"
  "temperature (api_params self tls tm msgs sc) = bp_temperature (self_base_params self)"
  "max_tokens (api_params self tls tm msgs sc) = bp_max_tokens (self_base_params self)"
  "messages (api_params self tls tm msgs sc) = msgs"
  "system (api_params self tls tm msgs sc) = sc"
  "tools (api_params self tls tm msgs sc) =
     (if tls \<noteq> None \<and> tls \<noteq> Some [] \<and> tm \<noteq> None then tls else None)"
  "tool_choice (api_params self tls tm msgs sc) =
     (if tls \<noteq> None \<and> tls \<noteq> Some [] \<and> tm \<noteq> None then Some (ToolChoice ''auto'') else None)"
  by (simp_all add: api_params_def Let_def)

lemma final_params_fields:
  "model (final_params self msgs sc) = bp_model (self_base_params self)"
  "temperature (final_params self msgs sc) = bp_temperature (self_base_params self)"
  "max_tokens (final_params self msgs sc) = bp_max_tokens (self_base_params self)"
  "messages (final_params self msgs sc) = msgs"
  "system (final_params self msgs sc) = sc"
  "tools (final_params self msgs sc) = None"
  "tool_choice (final_params self msgs sc) = None"
  by (simp_all add: final_params_def)

section \<open>Properties\<close>

subsection \<open>C1\<close>

text \<open>
  C1, as stated, fails. A first response with stop reason \<open>"tool_use"\<close> and no tool invocation
  makes the loop \<open>break\<close>; the statement after the loop is the final call, so a second,
  tool-free backend call is made on the transcript extended by the (empty) assistant message
  and its text is returned as the answer. The round counter stays 0.
\<close>

theorem empty_tool_use_counterexample:
  "generate_response (AIGenerator_init ''You are an AI assistant'' ''claude'') scripted_client
        ''Test query'' None (Some mock_tools) (Some returning_manager) 2
        [Inr empty_tool_use_response, Inr end_turn_response] =
     (Inr ''Final answer'',
      \<lparr>max_rounds = 2, current_round = 0, tool_calls_made = []\<rparr>,
      \<lparr>ext = [],
       trace =
         [BackendCall
            \<lparr>model = ''claude'', temperature = 0, max_tokens = 800,
             messages = [\<lparr>role = User, message_content = Text ''Test query''\<rparr>],
             system = ''You are an AI assistant'', tools = Some mock_tools,
             tool_choice = Some (ToolChoice ''auto'')\<rparr>
            (Inr empty_tool_use_response),
          BackendCall
            \<lparr>model = ''claude'', temperature = 0, max_tokens = 800,
             messages =
               [\<lparr>role = User, message_content = Text ''Test query''\<rparr>,
                \<lparr>role = Assistant, message_content = Blocks []\<rparr>],
             system = ''You are an AI assistant'', tools = None, tool_choice = None\<rparr>
            (Inr end_turn_response)]\<rparr>)"
  by (simp add: run_defs while_loop.simps)

text \<open>
  C1, amended. If, at the head of the loop after \<open>n\<close> complete passes, the backend returns a
  response with stop reason \<open>"tool_use"\<close> and no tool invocation, then no tool is executed, the
  tool state is left as it was (the round counter is not advanced, nothing is recorded), and
  that response is not returned as a direct answer: the loop is left by \<open>break\<close> and exactly
  one more backend call follows, without tools, on the transcript extended by the assistant
  message of that response; \<open>generate_response\<close> returns the text of this final response, or
  raises what the final call raises.
\<close>

theorem empty_tool_use_breaks_to_final_call:
  assumes "loop_head (AIGenerator_init prompt mdl) client tls tm
             (system_content_of (AIGenerator_init prompt mdl) conversation_history) n
             [\<lparr>role = User, message_content = Text query\<rparr>] (ToolCallState_init max_tool_rounds)
             \<lparr>ext = x, trace = []\<rparr> = Some (msgs, ts, w)"
    and "can_make_more_calls ts"
    and "client (api_params (AIGenerator_init prompt mdl) tls tm msgs
                   (system_content_of (AIGenerator_init prompt mdl) conversation_history)) (ext w) =
           (Inr resp, x1)"
    and "stop_reason resp = ''tool_use''"
    and "invocations (content resp) = []"
    and "client \<lparr>model = mdl, temperature = 0, max_tokens = 800,
                 messages = msgs @ [\<lparr>role = Assistant, message_content = Blocks (content resp)\<rparr>],
                 system = system_content_of (AIGenerator_init prompt mdl) conversation_history,
                 tools = None, tool_choice = None\<rparr> x1 = (oc, x2)"
  shows "generate_response (AIGenerator_init prompt mdl) client query conversation_history tls tm
           max_tool_rounds x =
         ((case oc of Inl e \<Rightarrow> Inl e | Inr r \<Rightarrow> content0_text r), ts,
          \<lparr>ext = x2,
           trace = trace w @
             [BackendCall (api_params (AIGenerator_init prompt mdl) tls tm msgs
                   (system_content_of (AIGenerator_init prompt mdl) conversation_history)) (Inr resp),
              BackendCall \<lparr>model = mdl, temperature = 0, max_tokens = 800,
                 messages = msgs @ [\<lparr>role = Assistant, message_content = Blocks (content resp)\<rparr>],
                 system = system_content_of (AIGenerator_init prompt mdl) conversation_history,
                 tools = None, tool_choice = None\<rparr> oc]\<rparr>)"
proof -
  let ?self = "AIGenerator_init prompt mdl"
  let ?sc = "system_content_of ?self conversation_history"
  let ?msgs' = "msgs @ [\<lparr>role = Assistant, message_content = Blocks (content resp)\<rparr>]"
  let ?w1 = "\<lparr>ext = x1, trace = trace w @ [BackendCall (api_params ?self tls tm msgs ?sc) (Inr resp)]\<rparr>"
  have f: "final_params ?self ?msgs' ?sc =
      \<lparr>model = mdl, temperature = 0, max_tokens = 800, messages = ?msgs', system = ?sc,
       tools = None, tool_choice = None\<rparr>"
    by (simp add: final_params_def AIGenerator_init_def)
  from assms(3) have "messages_create client (api_params ?self tls tm msgs ?sc) w = (Inr resp, ?w1)"
    by (simp add: messages_create_def)
  with assms(4,5) have "loop_body ?self client tls tm ?sc msgs ts w = (Inl (Break ?msgs'), ts, ?w1)"
    by (simp add: loop_body_def execute_tool_round_none)
  with assms(2) have "while_loop ?self client tls tm ?sc msgs ts w = (Break ?msgs', ts, ?w1)"
    by (simp add: while_loop.simps[of _ _ _ _ _ msgs ts w])
  with loop_head_while_loop[OF assms(1)]
  have "while_loop ?self client tls tm ?sc [\<lparr>role = User, message_content = Text query\<rparr>]
          (ToolCallState_init max_tool_rounds) \<lparr>ext = x, trace = []\<rparr> = (Break ?msgs', ts, ?w1)"
    by simp
  with assms(6) f show ?thesis
    by (simp add: generate_response_def Let_def make_final_response_eq)
qed

theorem empty_tool_use_breaks_to_final_call_witness:
  "can_make_more_calls (ToolCallState_init 2)
   \<and> stop_reason empty_tool_use_response = ''tool_use''
   \<and> invocations (content empty_tool_use_response) = []
   \<and> generate_response (AIGenerator_init ''You are an AI assistant'' ''claude'') scripted_client
        ''Test query'' None (Some mock_tools) (Some returning_manager) 2
        [Inr empty_tool_use_response, Inr end_turn_response] =
     (Inr ''Final answer'', ToolCallState_init 2,
      \<lparr>ext = [],
       trace =
         [BackendCall
            (api_params (AIGenerator_init ''You are an AI assistant'' ''claude'') (Some mock_tools)
               (Some (returning_manager :: (error + response) list tool_manager))
               [\<lparr>role = User, message_content = Text ''Test query''\<rparr>] ''You are an AI assistant'')
            (Inr empty_tool_use_response),
          BackendCall
            \<lparr>model = ''claude'', temperature = 0, max_tokens = 800,
             messages =
               [\<lparr>role = User, message_content = Text ''Test query''\<rparr>,
                \<lparr>role = Assistant, message_content = Blocks []\<rparr>],
             system = ''You are an AI assistant'', tools = None, tool_choice = None\<rparr>
            (Inr end_turn_response)]\<rparr>)"
proof -
  let ?self = "AIGenerator_init ''You are an AI assistant'' ''claude''"
  let ?m = "[\<lparr>role = User, message_content = Text ''Test query''\<rparr>]"
  let ?x = "[Inr empty_tool_use_response, Inr end_turn_response]"
  have h: "loop_head ?self scripted_client (Some mock_tools) (Some returning_manager)
             (system_content_of ?self None) 0 ?m (ToolCallState_init 2) \<lparr>ext = ?x, trace = []\<rparr> =
           Some (?m, ToolCallState_init 2, \<lparr>ext = ?x, trace = []\<rparr>)"
    by simp
  have c: "can_make_more_calls (ToolCallState_init 2)"
    by (simp add: can_make_more_calls_def ToolCallState_init_def)
  have r: "scripted_client (api_params ?self (Some mock_tools) (Some returning_manager) ?m
              (system_content_of ?self None)) (ext \<lparr>ext = ?x, trace = []\<rparr>) =
           (Inr empty_tool_use_response, [Inr end_turn_response])"
    by (simp add: scripted_client_def)
  have s: "stop_reason empty_tool_use_response = ''tool_use''"
    and i: "invocations (content empty_tool_use_response) = []"
    by (simp_all add: empty_tool_use_response_def)
  have f: "scripted_client \<lparr>model = ''claude'', temperature = 0, max_tokens = 800,
             messages = ?m @ [\<lparr>role = Assistant, message_content = Blocks (content empty_tool_use_response)\<rparr>],
             system = system_content_of ?self None, tools = None, tool_choice = None\<rparr>
             [Inr end_turn_response] = (Inr end_turn_response, [])"
    by (simp add: scripted_client_def)
  from empty_tool_use_breaks_to_final_call[OF h c r s i f] c s i show ?thesis
    by (simp add: system_content_of_def AIGenerator_init_def end_turn_response_def
        empty_tool_use_response_def)
qed

subsection \<open>C2\<close>

text \<open>
  C2, as stated, fails. With \<open>max_tool_rounds = 1\<close> and a first response whose stop reason is
  \<open>"tool_use"\<close> but which holds no tool invocation, the loop is left by \<open>break\<close> and the final
  call follows: two backend calls, that is \<open>N + 1\<close>, although the one round executed no tool
  and the invocation log is empty.
\<close>

theorem backend_calls_counterexample:
  "int (length (backend_requests (trace (snd (snd
      (generate_response (AIGenerator_init ''You are an AI assistant'' ''claude'') scripted_client
         ''Test query'' None (Some mock_tools) (Some returning_manager) 1
         [Inr empty_tool_use_response, Inr end_turn_response])))))) = 1 + 1
   \<and> tool_executions (trace (snd (snd
      (generate_response (AIGenerator_init ''You are an AI assistant'' ''claude'') scripted_client
         ''Test query'' None (Some mock_tools) (Some returning_manager) 1
         [Inr empty_tool_use_response, Inr end_turn_response])))) = []
   \<and> tool_calls_made (fst (snd
      (generate_response (AIGenerator_init ''You are an AI assistant'' ''claude'') scripted_client
         ''Test query'' None (Some mock_tools) (Some returning_manager) 1
         [Inr empty_tool_use_response, Inr end_turn_response]))) = []"
  by (simp add: run_defs Let_def while_loop.simps)

text \<open>
  C2, amended. For \<open>max_tool_rounds = N \<ge> 0\<close> a run makes at most \<open>N + 1\<close> backend calls. It makes
  exactly \<open>N + 1\<close> only if each of the first \<open>N\<close> backend calls returned a response with stop
  reason \<open>"tool_use"\<close> and every one of the first \<open>N - 1\<close> rounds (rounds \<open>0\<close> to \<open>N - 2\<close> of the
  tool state) has at least one tool execution recorded in the invocation log.
\<close>

theorem backend_calls_bounded:
  assumes "0 \<le> N"
    and "generate_response self client query conversation_history tls tm N x = (out, ts', w')"
  shows "int (length (backend_requests (trace w'))) \<le> N + 1
       \<and> (int (length (backend_requests (trace w'))) = N + 1 \<longrightarrow>
            (\<forall>j. 0 \<le> j \<and> j < N - 1 \<longrightarrow> (\<exists>c \<in> set (tool_calls_made ts'). tc_round c = j)) \<and>
            (\<forall>k < nat N. wants_tool (backend_outcomes (trace w') ! k)))"
proof -
  from generate_response_rounds[OF assms]
  have le: "int (length (backend_requests (trace w'))) \<le> N + 1"
    and eq: "int (length (backend_requests (trace w'))) = N + 1 \<Longrightarrow>
            rounds_logged ts' (N - 1) \<and> list_all wants_tool (take (nat N) (backend_outcomes (trace w')))"
    by simp_all
  have "wants_tool (backend_outcomes (trace w') ! k)"
    if "int (length (backend_requests (trace w'))) = N + 1" "k < nat N" for k
  proof -
    from that(1) have "length (backend_outcomes (trace w')) = nat N + 1"
      using assms(1) by (simp add: length_backend_outcomes nat_add_distrib)
    moreover from eq[OF that(1)] have "list_all wants_tool (take (nat N) (backend_outcomes (trace w')))"
      by simp
    ultimately show ?thesis using that(2)
      by (simp add: list_all_length)
  qed
  with le eq show ?thesis
    by (simp add: rounds_logged_def)
qed

theorem backend_calls_bounded_witness:
  "(0::int) \<le> 2
   \<and> int (length (backend_requests (trace (snd (snd
      (generate_response (AIGenerator_init ''You are an AI assistant'' ''claude'') scripted_client
         ''Test query'' None (Some mock_tools) (Some returning_manager) 2
         [Inr tool_use_response, Inr tool_use_response, Inr end_turn_response])))))) = 2 + 1
   \<and> (\<exists>c \<in> set (tool_calls_made (fst (snd
      (generate_response (AIGenerator_init ''You are an AI assistant'' ''claude'') scripted_client
         ''Test query'' None (Some mock_tools) (Some returning_manager) 2
         [Inr tool_use_response, Inr tool_use_response, Inr end_turn_response])))). tc_round c = 0)
   \<and> wants_tool (backend_outcomes (trace (snd (snd
      (generate_response (AIGenerator_init ''You are an AI assistant'' ''claude'') scripted_client
         ''Test query'' None (Some mock_tools) (Some returning_manager) 2
         [Inr tool_use_response, Inr tool_use_response, Inr end_turn_response])))) ! 1)"
proof -
  have a: "(0::int) \<le> 2" by simp
  have n: "int (length (backend_requests (trace (snd (snd
      (generate_response (AIGenerator_init ''You are an AI assistant'' ''claude'') scripted_client
         ''Test query'' None (Some mock_tools) (Some returning_manager) 2
         [Inr tool_use_response, Inr tool_use_response, Inr end_turn_response])))))) = 2 + 1"
    by (simp add: run_defs Let_def while_loop.simps)
  obtain out ts' w' where h:
    "generate_response (AIGenerator_init ''You are an AI assistant'' ''claude'') scripted_client
       ''Test query'' None (Some mock_tools) (Some returning_manager) 2
       [Inr tool_use_response, Inr tool_use_response, Inr end_turn_response] = (out, ts', w')"
    using prod_cases3 by blast
  from n have n': "int (length (backend_requests (trace w'))) = 2 + 1"
    by (simp add: h)
  from backend_calls_bounded[OF a h] n'
  have "(\<forall>j. 0 \<le> j \<and> j < 2 - 1 \<longrightarrow> (\<exists>c \<in> set (tool_calls_made ts'). tc_round c = j)) \<and>
        (\<forall>k < nat 2. wants_tool (backend_outcomes (trace w') ! k))"
    by blast
  then have "(\<exists>c \<in> set (tool_calls_made ts'). tc_round c = 0) \<and>
        wants_tool (backend_outcomes (trace w') ! 1)"
    by simp
  with a n' show ?thesis
    by (simp add: h)
qed

subsection \<open>C3\<close>



subsection \<open>C4\<close>

text \<open>
  C4. If some execution of a tool raised during a run of \<open>generate_response\<close>, then the run
  raises that same failure; the failed execution is the last entry of the log, so no further
  invocation of the round was executed and no backend call (synthesis or other) followed it;
  it is the only failed execution; and the invocation log of the tool state holds exactly the
  executions that returned, in order, so it has no record for the failed one.
\<close>

theorem tool_failure_propagates:
  assumes "generate_response self client query conversation_history tls tm max_tool_rounds x = (out, ts', w')"
    and "ToolCall nm inp (Inl e) \<in> set (trace w')"
  shows "out = Inl e
       \<and> last (trace w') = ToolCall nm inp (Inl e)
       \<and> (\<forall>ev \<in> set (butlast (trace w')). \<not> raised_execution ev)
       \<and> map logged_call (tool_calls_made ts') = returned_executions (trace w')"
proof -
  from generate_response_tracked[OF assms(1)]
  have t: "tracked ts' w'" and d: "no_raise (trace w') \<or> (\<exists>e. out = Inl e \<and> aborted_by e (trace w'))"
    by auto
  have r: "raised_execution (ToolCall nm inp (Inl e))" by simp
  with assms(2) have "\<not> no_raise (trace w')"
    unfolding no_raise_def by blast
  with d obtain e' pre nm' inp' where o: "out = Inl e'"
    and tr: "trace w' = pre @ [ToolCall nm' inp' (Inl e')]" and p: "no_raise pre"
    by (auto simp: aborted_by_def)
  from assms(2) tr p r have "ToolCall nm inp (Inl e) = ToolCall nm' inp' (Inl e')"
    unfolding no_raise_def by auto
  with o tr p t show ?thesis
    by (simp add: tracked_def no_raise_def)
qed

theorem tool_failure_propagates_witness:
  "generate_response (AIGenerator_init ''You are an AI assistant'' ''claude'') scripted_client
      ''Test query'' None (Some mock_tools) (Some raising_manager) 2
      [Inr tool_use_response, Inr end_turn_response] =
     (Inl (ToolError ''Tool error''), ToolCallState_init 2,
      \<lparr>ext = [Inr end_turn_response],
       trace = [BackendCall
          (api_params (AIGenerator_init ''You are an AI assistant'' ''claude'') (Some mock_tools)
             (Some (raising_manager :: (error + response) list tool_manager))
             [\<lparr>role = User, message_content = Text ''Test query''\<rparr>] ''You are an AI assistant'')
          (Inr tool_use_response),
          ToolCall ''search_tool'' [(''query'', ''test'')] (Inl (ToolError ''Tool error''))]\<rparr>)
   \<and> tool_calls_made (ToolCallState_init 2) = []"
proof -
  have h: "generate_response (AIGenerator_init ''You are an AI assistant'' ''claude'') scripted_client
      ''Test query'' None (Some mock_tools) (Some raising_manager) 2
      [Inr tool_use_response, Inr end_turn_response] =
     (Inl (ToolError ''Tool error''), ToolCallState_init 2,
      \<lparr>ext = [Inr end_turn_response],
       trace = [BackendCall
          (api_params (AIGenerator_init ''You are an AI assistant'' ''claude'') (Some mock_tools)
             (Some (raising_manager :: (error + response) list tool_manager))
             [\<lparr>role = User, message_content = Text ''Test query''\<rparr>] ''You are an AI assistant'')
          (Inr tool_use_response),
          ToolCall ''search_tool'' [(''query'', ''test'')] (Inl (ToolError ''Tool error''))]\<rparr>)"
    by (simp add: run_defs while_loop.simps)
  from tool_failure_propagates[OF h, of "''search_tool''" "[(''query'', ''test'')]" "ToolError ''Tool error''"]
  show ?thesis using h by (simp add: ToolCallState_init_def)
qed

subsection \<open>C5\<close>



subsection \<open>C6\<close>



subsection \<open>C7\<close>

text \<open>
  C7. For \<open>max_tool_rounds = N \<ge> 0\<close> (the specification takes the ceiling to be a positive
  integer): a fresh tool state has \<open>current_round = 0\<close>; \<open>can_make_more_calls\<close> is true exactly
  when \<open>current_round < max_rounds\<close>; at the head of the loop after \<open>n\<close> complete passes
  \<open>current_round\<close> is \<open>n\<close>, lies between \<open>0\<close> and \<open>max_rounds = N\<close>, and each of the \<open>n\<close> completed
  rounds has an executed tool in the log; one pass of the body adds exactly 1 when it reaches
  the end of the body (which it does only after at least one tool was executed) and nothing
  when it leaves the loop; and the tool state at the end of \<open>generate_response\<close> has the
  counter of one of these loop heads, between \<open>0\<close> and \<open>max_rounds\<close>.
\<close>

theorem round_tracker_invariant:
  assumes "0 \<le> N"
  shows "current_round (ToolCallState_init N) = 0
       \<and> (can_make_more_calls ts0 \<longleftrightarrow> current_round ts0 < max_rounds ts0)
       \<and> (loop_head self client tls tm (system_content_of self conversation_history) n
             [\<lparr>role = User, message_content = Text query\<rparr>] (ToolCallState_init N)
             \<lparr>ext = x, trace = []\<rparr> = Some (msgs, ts, w) \<longrightarrow>
           current_round ts = int n \<and> 0 \<le> current_round ts \<and> current_round ts \<le> max_rounds ts \<and>
           max_rounds ts = N \<and>
           (\<forall>j. 0 \<le> j \<and> j < int n \<longrightarrow> (\<exists>c \<in> set (tool_calls_made ts). tc_round c = j)))
       \<and> (loop_body self client tls tm sc msgs1 ts1 w1 = (r, ts2, w2) \<longrightarrow>
           max_rounds ts2 = max_rounds ts1 \<and>
           current_round ts2 = (case r of Inl ex \<Rightarrow> current_round ts1 | Inr m \<Rightarrow> current_round ts1 + 1))
       \<and> (generate_response self client query conversation_history tls tm N x = (out, ts', w') \<longrightarrow>
           0 \<le> current_round ts' \<and> current_round ts' \<le> max_rounds ts' \<and> max_rounds ts' = N \<and>
           (\<exists>k msgs3 ts3 w3.
              loop_head self client tls tm (system_content_of self conversation_history) k
                [\<lparr>role = User, message_content = Text query\<rparr>] (ToolCallState_init N)
                \<lparr>ext = x, trace = []\<rparr> = Some (msgs3, ts3, w3) \<and>
              current_round ts' = int k))"
proof (intro conjI impI)
  show "current_round (ToolCallState_init N) = 0"
    by (simp add: ToolCallState_init_def)
  show "can_make_more_calls ts0 \<longleftrightarrow> current_round ts0 < max_rounds ts0"
    by (simp add: can_make_more_calls_def)
next
  assume h: "loop_head self client tls tm (system_content_of self conversation_history) n
             [\<lparr>role = User, message_content = Text query\<rparr>] (ToolCallState_init N)
             \<lparr>ext = x, trace = []\<rparr> = Some (msgs, ts, w)"
  from loop_head_counts[OF h] assms
  have k: "current_round ts = int n" "max_rounds ts = N" "current_round ts \<le> max_rounds ts"
    "\<forall>j. 0 \<le> j \<and> j < int n \<longrightarrow> (\<exists>c \<in> set (tool_calls_made ts). tc_round c = j)"
    by (cases n; simp add: ToolCallState_init_def)+
  from k show "current_round ts = int n" "0 \<le> current_round ts" "current_round ts \<le> max_rounds ts"
    "max_rounds ts = N" "\<forall>j. 0 \<le> j \<and> j < int n \<longrightarrow> (\<exists>c \<in> set (tool_calls_made ts). tc_round c = j)"
    by simp_all
next
  assume b: "loop_body self client tls tm sc msgs1 ts1 w1 = (r, ts2, w2)"
  from loop_body_rounds[OF b] show "max_rounds ts2 = max_rounds ts1"
    "current_round ts2 = (case r of Inl ex \<Rightarrow> current_round ts1 | Inr m \<Rightarrow> current_round ts1 + 1)"
    by simp_all
next
  assume g: "generate_response self client query conversation_history tls tm N x = (out, ts', w')"
  from generate_response_rounds[OF assms g]
  show "0 \<le> current_round ts'" "current_round ts' \<le> max_rounds ts'" "max_rounds ts' = N"
    by simp_all
  from g show "\<exists>k msgs3 ts3 w3.
              loop_head self client tls tm (system_content_of self conversation_history) k
                [\<lparr>role = User, message_content = Text query\<rparr>] (ToolCallState_init N)
                \<lparr>ext = x, trace = []\<rparr> = Some (msgs3, ts3, w3) \<and>
              current_round ts' = int k"
  proof (cases rule: generate_response_cases)
    case (Exhausted n msgs w1)
    from loop_head_counts[OF Exhausted(1)] Exhausted(1) show ?thesis
      by (intro exI[of _ n] exI[of _ msgs] exI[of _ ts'] exI[of _ w1])
         (simp add: ToolCallState_init_def)
  next
    case (Broke n msgs ts w msgs' w1)
    from loop_head_counts[OF Broke(1)] loop_body_rounds[OF Broke(3)] Broke(1) show ?thesis
      by (intro exI[of _ n] exI[of _ msgs] exI[of _ ts] exI[of _ w])
         (simp add: ToolCallState_init_def)
  next
    case (Returned n msgs ts w t)
    from loop_head_counts[OF Returned(1)] loop_body_rounds[OF Returned(3)] Returned(1) show ?thesis
      by (intro exI[of _ n] exI[of _ msgs] exI[of _ ts] exI[of _ w])
         (simp add: ToolCallState_init_def)
  next
    case (Raised n msgs ts w e)
    from loop_head_counts[OF Raised(1)] loop_body_rounds[OF Raised(3)] Raised(1) show ?thesis
      by (intro exI[of _ n] exI[of _ msgs] exI[of _ ts] exI[of _ w])
         (simp add: ToolCallState_init_def)
  qed
qed

theorem round_tracker_invariant_witness:
  "(0::int) \<le> 2
   \<and> (\<exists>msgs ts w.
        loop_head (AIGenerator_init ''You are an AI assistant'' ''claude'') scripted_client
          (Some mock_tools) (Some returning_manager)
          (system_content_of (AIGenerator_init ''You are an AI assistant'' ''claude'') None) 1
          [\<lparr>role = User, message_content = Text ''Test query''\<rparr>] (ToolCallState_init 2)
          \<lparr>ext = [Inr tool_use_response, Inr end_turn_response], trace = []\<rparr> = Some (msgs, ts, w)
        \<and> current_round ts = 1 \<and> max_rounds ts = 2)
   \<and> (\<exists>out ts' w'.
        generate_response (AIGenerator_init ''You are an AI assistant'' ''claude'') scripted_client
          ''Test query'' None (Some mock_tools) (Some returning_manager) 2
          [Inr tool_use_response, Inr end_turn_response] = (out, ts', w')
        \<and> out = Inr ''Final answer'' \<and> 0 \<le> current_round ts' \<and> current_round ts' \<le> 2)"
proof -
  have a: "(0::int) \<le> 2" by simp
  obtain msgs ts w where h:
    "loop_head (AIGenerator_init ''You are an AI assistant'' ''claude'') scripted_client
          (Some mock_tools) (Some returning_manager)
          (system_content_of (AIGenerator_init ''You are an AI assistant'' ''claude'') None) 1
          [\<lparr>role = User, message_content = Text ''Test query''\<rparr>] (ToolCallState_init 2)
          \<lparr>ext = [Inr tool_use_response, Inr end_turn_response], trace = []\<rparr> = Some (msgs, ts, w)"
    by (simp add: run_defs Let_def)
  obtain out ts' w' where g:
    "generate_response (AIGenerator_init ''You are an AI assistant'' ''claude'') scripted_client
          ''Test query'' None (Some mock_tools) (Some returning_manager) 2
          [Inr tool_use_response, Inr end_turn_response] = (out, ts', w')"
    and o: "out = Inr ''Final answer''"
    by (simp add: run_defs Let_def while_loop.simps)
  note t = round_tracker_invariant[OF a, where self = "AIGenerator_init ''You are an AI assistant'' ''claude''"
      and client = scripted_client and tls = "Some mock_tools" and tm = "Some returning_manager"
      and conversation_history = None and query = "''Test query''"
      and x = "[Inr tool_use_response, Inr end_turn_response]"
      and n = 1 and msgs = msgs and ts = ts and w = w
      and out = out and ts' = ts' and w' = w']
  from t[THEN conjunct2, THEN conjunct2, THEN conjunct1, THEN mp, OF h]
  have 1: "current_round ts = 1 \<and> max_rounds ts = 2" by simp
  from t[THEN conjunct2, THEN conjunct2, THEN conjunct2, THEN conjunct2, THEN mp, OF g]
  have 2: "0 \<le> current_round ts' \<and> current_round ts' \<le> 2" by simp
  from a h g o 1 2 show ?thesis by blast
qed

subsection \<open>C8\<close>

text \<open>
  C8. \<open>add_tool_call\<close> appends exactly one record; the record's \<open>result_length\<close> is the
  length of the text passed, and 0 when the text is empty or \<open>None\<close>. The function is total:
  it returns a tool state for every name, parameter mapping and result.
\<close>

theorem add_tool_call_appends_one_record:
  "add_tool_call ts tool_name ps res =
     ts\<lparr>tool_calls_made := tool_calls_made ts @
          [\<lparr>tc_round = current_round ts, tc_tool = tool_name, tc_params = ps,
            tc_result_length = (case res of None \<Rightarrow> 0 | Some t \<Rightarrow> int (length t))\<rparr>]\<rparr>
   \<and> length (tool_calls_made (add_tool_call ts tool_name ps res)) = length (tool_calls_made ts) + 1
   \<and> tc_result_length (last (tool_calls_made (add_tool_call ts tool_name ps None))) = 0
   \<and> tc_result_length (last (tool_calls_made (add_tool_call ts tool_name ps (Some [])))) = 0"
  by (cases res) (simp_all add: add_tool_call_def)

subsection \<open>C9\<close>

text \<open>
  C9. Every backend request of a run has the generator's model, temperature 0 and
  \<open>max_tokens\<close> 800, the system content assembled once (the prompt, followed by the heading
  \<open>Previous conversation:\<close> and the history when the history is a non-empty text), and a
  transcript that starts with the user's query; it has either no \<open>tools\<close> and no
  \<open>tool_choice\<close>, or the supplied tool list with \<open>tool_choice\<close> of type \<open>auto\<close>, the latter only
  when a non-empty tool list and a tool manager were supplied. The request of the pass that
  starts at the loop head after \<open>n\<close> complete passes is the \<open>(n+1)\<close>-th of the run; its
  \<open>messages\<close> are the whole transcript at that head, and it offers the tools exactly when a
  non-empty tool list and a tool manager were supplied.
\<close>

theorem loop_requests_content:
  assumes "generate_response (AIGenerator_init prompt mdl) client query conversation_history tls tm
             max_tool_rounds x = (out, ts', w')"
  shows "(\<forall>req \<in> set (backend_requests (trace w')).
            model req = mdl \<and> temperature req = 0 \<and> max_tokens req = 800 \<and>
            system req =
              (if truthy conversation_history
               then prompt @ ''\<newline>\<newline>Previous conversation:\<newline>'' @ the conversation_history
               else prompt) \<and>
            (\<exists>more. messages req = \<lparr>role = User, message_content = Text query\<rparr> # more) \<and>
            (tools req = None \<and> tool_choice req = None \<or>
             tools req = tls \<and> tool_choice req = Some (ToolChoice ''auto'') \<and>
             tls \<noteq> None \<and> tls \<noteq> Some [] \<and> tm \<noteq> None))
       \<and> (loop_head (AIGenerator_init prompt mdl) client tls tm
             (system_content_of (AIGenerator_init prompt mdl) conversation_history) n
             [\<lparr>role = User, message_content = Text query\<rparr>] (ToolCallState_init max_tool_rounds)
             \<lparr>ext = x, trace = []\<rparr> = Some (msgs, ts, w) \<and>
           can_make_more_calls ts \<and>
           loop_body (AIGenerator_init prompt mdl) client tls tm
             (system_content_of (AIGenerator_init prompt mdl) conversation_history) msgs ts w =
             (r, ts2, w2) \<longrightarrow>
           length (backend_requests (trace w)) = n \<and>
           backend_requests (trace w2) = backend_requests (trace w) @
             [\<lparr>model = mdl, temperature = 0, max_tokens = 800, messages = msgs,
               system = system_content_of (AIGenerator_init prompt mdl) conversation_history,
               tools = (if tls \<noteq> None \<and> tls \<noteq> Some [] \<and> tm \<noteq> None then tls else None),
               tool_choice = (if tls \<noteq> None \<and> tls \<noteq> Some [] \<and> tm \<noteq> None
                              then Some (ToolChoice ''auto'') else None)\<rparr>])"
proof (intro conjI ballI impI)
  fix req
  assume "req \<in> set (backend_requests (trace w'))"
  from generate_response_requests[OF assms this] obtain more where
    d: "req = api_params (AIGenerator_init prompt mdl) tls tm
             (\<lparr>role = User, message_content = Text query\<rparr> # more)
             (system_content_of (AIGenerator_init prompt mdl) conversation_history) \<or>
     req = final_params (AIGenerator_init prompt mdl)
             (\<lparr>role = User, message_content = Text query\<rparr> # more)
             (system_content_of (AIGenerator_init prompt mdl) conversation_history)"
    by blast
  have s: "system_content_of (AIGenerator_init prompt mdl) conversation_history =
       (if truthy conversation_history
        then prompt @ ''\<newline>\<newline>Previous conversation:\<newline>'' @ the conversation_history
        else prompt)"
    by (simp add: system_content_of_def AIGenerator_init_def)
  have b: "bp_model (self_base_params (AIGenerator_init prompt mdl)) = mdl"
    "bp_temperature (self_base_params (AIGenerator_init prompt mdl)) = 0"
    "bp_max_tokens (self_base_params (AIGenerator_init prompt mdl)) = 800"
    by (simp_all add: AIGenerator_init_def)
  from d b show "model req = mdl" "temperature req = 0" "max_tokens req = 800"
    by (auto simp: api_params_fields final_params_fields)
  from d s show "system req =
       (if truthy conversation_history
        then prompt @ ''\<newline>\<newline>Previous conversation:\<newline>'' @ the conversation_history
        else prompt)"
    by (auto simp: api_params_fields final_params_fields)
  from d show "\<exists>more. messages req = \<lparr>role = User, message_content = Text query\<rparr> # more"
    by (auto simp: api_params_fields final_params_fields)
  show "tools req = None \<and> tool_choice req = None \<or>
     tools req = tls \<and> tool_choice req = Some (ToolChoice ''auto'') \<and>
     tls \<noteq> None \<and> tls \<noteq> Some [] \<and> tm \<noteq> None"
  proof (cases "tls \<noteq> None \<and> tls \<noteq> Some [] \<and> tm \<noteq> None")
    case True
    with d show ?thesis
      by (auto simp: api_params_fields final_params_fields)
  next
    case False
    with d have "tools req = None \<and> tool_choice req = None"
      by (auto simp: api_params_fields final_params_fields)
    then show ?thesis by blast
  qed
next
  assume a: "loop_head (AIGenerator_init prompt mdl) client tls tm
             (system_content_of (AIGenerator_init prompt mdl) conversation_history) n
             [\<lparr>role = User, message_content = Text query\<rparr>] (ToolCallState_init max_tool_rounds)
             \<lparr>ext = x, trace = []\<rparr> = Some (msgs, ts, w) \<and>
           can_make_more_calls ts \<and>
           loop_body (AIGenerator_init prompt mdl) client tls tm
             (system_content_of (AIGenerator_init prompt mdl) conversation_history) msgs ts w =
             (r, ts2, w2)"
  from a have h: "loop_head (AIGenerator_init prompt mdl) client tls tm
             (system_content_of (AIGenerator_init prompt mdl) conversation_history) n
             [\<lparr>role = User, message_content = Text query\<rparr>] (ToolCallState_init max_tool_rounds)
             \<lparr>ext = x, trace = []\<rparr> = Some (msgs, ts, w)"
    and b: "loop_body (AIGenerator_init prompt mdl) client tls tm
             (system_content_of (AIGenerator_init prompt mdl) conversation_history) msgs ts w =
             (r, ts2, w2)"
    by simp_all
  from loop_head_counts[OF h] show "length (backend_requests (trace w)) = n"
    by simp
  have "api_params (AIGenerator_init prompt mdl) tls tm msgs
          (system_content_of (AIGenerator_init prompt mdl) conversation_history) =
        \<lparr>model = mdl, temperature = 0, max_tokens = 800, messages = msgs,
               system = system_content_of (AIGenerator_init prompt mdl) conversation_history,
               tools = (if tls \<noteq> None \<and> tls \<noteq> Some [] \<and> tm \<noteq> None then tls else None),
               tool_choice = (if tls \<noteq> None \<and> tls \<noteq> Some [] \<and> tm \<noteq> None
                              then Some (ToolChoice ''auto'') else None)\<rparr>"
    by (simp add: api_params_def AIGenerator_init_def Let_def)
  with loop_body_log[OF b]
  show "backend_requests (trace w2) = backend_requests (trace w) @
             [\<lparr>model = mdl, temperature = 0, max_tokens = 800, messages = msgs,
               system = system_content_of (AIGenerator_init prompt mdl) conversation_history,
               tools = (if tls \<noteq> None \<and> tls \<noteq> Some [] \<and> tm \<noteq> None then tls else None),
               tool_choice = (if tls \<noteq> None \<and> tls \<noteq> Some [] \<and> tm \<noteq> None
                              then Some (ToolChoice ''auto'') else None)\<rparr>]"
    by simp
qed

theorem loop_requests_content_witness:
  "\<exists>out ts' w' r ts2 w2.
     generate_response (AIGenerator_init ''You are an AI assistant'' ''claude'') scripted_client
        ''Test query'' (Some ''User: hi'') (Some mock_tools) (Some returning_manager) 2
        [Inr tool_use_response, Inr end_turn_response] = (out, ts', w')
   \<and> \<lparr>model = ''claude'', temperature = 0, max_tokens = 800,
             messages =
               [\<lparr>role = User, message_content = Text ''Test query''\<rparr>,
                \<lparr>role = Assistant, message_content = Blocks (content tool_use_response)\<rparr>,
                \<lparr>role = User, message_content = ToolResults
                   [\<lparr>result_type = ''tool_result'', tool_use_id = ''tool_1'',
                     result_content = Some ''Tool result''\<rparr>]\<rparr>],
             system = ''You are an AI assistant\<newline>\<newline>Previous conversation:\<newline>User: hi'',
             tools = Some mock_tools,
             tool_choice = Some (ToolChoice ''auto'')\<rparr> \<in> set (backend_requests (trace w'))
   \<and> can_make_more_calls (ToolCallState_init 2)
   \<and> loop_body (AIGenerator_init ''You are an AI assistant'' ''claude'') scripted_client
        (Some mock_tools) (Some returning_manager)
        (system_content_of (AIGenerator_init ''You are an AI assistant'' ''claude'') (Some ''User: hi''))
        [\<lparr>role = User, message_content = Text ''Test query''\<rparr>] (ToolCallState_init 2)
        \<lparr>ext = [Inr tool_use_response, Inr end_turn_response], trace = []\<rparr> = (r, ts2, w2)
   \<and> backend_requests (trace w2) =
        [\<lparr>model = ''claude'', temperature = 0, max_tokens = 800,
          messages = [\<lparr>role = User, message_content = Text ''Test query''\<rparr>],
          system = ''You are an AI assistant\<newline>\<newline>Previous conversation:\<newline>User: hi'',
          tools = Some mock_tools, tool_choice = Some (ToolChoice ''auto'')\<rparr>]"
proof -
  let ?self = "AIGenerator_init ''You are an AI assistant'' ''claude''"
  let ?x = "[Inr tool_use_response, Inr end_turn_response]"
  let ?m = "[\<lparr>role = User, message_content = Text ''Test query''\<rparr>]"
  let ?r1 = "\<lparr>model = ''claude'', temperature = 0, max_tokens = 800,
             messages =
               [\<lparr>role = User, message_content = Text ''Test query''\<rparr>,
                \<lparr>role = Assistant, message_content = Blocks (content tool_use_response)\<rparr>,
                \<lparr>role = User, message_content = ToolResults
                   [\<lparr>result_type = ''tool_result'', tool_use_id = ''tool_1'',
                     result_content = Some ''Tool result''\<rparr>]\<rparr>],
             system = ''You are an AI assistant\<newline>\<newline>Previous conversation:\<newline>User: hi'',
             tools = Some mock_tools,
             tool_choice = Some (ToolChoice ''auto'')\<rparr>"
  obtain out ts' w' where g:
    "generate_response ?self scripted_client ''Test query'' (Some ''User: hi'') (Some mock_tools)
       (Some returning_manager) 2 ?x = (out, ts', w')"
    and i: "?r1 \<in> set (backend_requests (trace w'))"
    by (simp add: run_defs while_loop.simps)
  obtain r ts2 w2 where b:
    "loop_body ?self scripted_client (Some mock_tools) (Some returning_manager)
       (system_content_of ?self (Some ''User: hi'')) ?m (ToolCallState_init 2)
       \<lparr>ext = ?x, trace = []\<rparr> = (r, ts2, w2)"
    using prod_cases3 by blast
  have h: "loop_head ?self scripted_client (Some mock_tools) (Some returning_manager)
       (system_content_of ?self (Some ''User: hi'')) 0 ?m (ToolCallState_init 2)
       \<lparr>ext = ?x, trace = []\<rparr> = Some (?m, ToolCallState_init 2, \<lparr>ext = ?x, trace = []\<rparr>)"
    by simp
  have c: "can_make_more_calls (ToolCallState_init 2)"
    by (simp add: can_make_more_calls_def ToolCallState_init_def)
  note t = loop_requests_content[OF g, where n = 0 and msgs = ?m and ts = "ToolCallState_init 2"
      and w = "\<lparr>ext = ?x, trace = []\<rparr>" and r = r and ?ts2.0 = ts2 and ?w2.0 = w2]
  from t[THEN conjunct1, THEN bspec, OF i]
  have 1: "temperature ?r1 = 0 \<and> max_tokens ?r1 = 800" by blast
  from t[THEN conjunct2, THEN mp, OF conjI[OF h conjI[OF c b]]]
  have 2: "backend_requests (trace w2) =
        [\<lparr>model = ''claude'', temperature = 0, max_tokens = 800,
          messages = [\<lparr>role = User, message_content = Text ''Test query''\<rparr>],
          system = ''You are an AI assistant\<newline>\<newline>Previous conversation:\<newline>User: hi'',
          tools = Some mock_tools, tool_choice = Some (ToolChoice ''auto'')\<rparr>]"
    by (simp add: system_content_of_def AIGenerator_init_def mock_tools_def)
  from g i c b 1 2 show ?thesis by blast
qed

subsection \<open>C10\<close>

text \<open>
  C10. When the tool list is \<open>None\<close> or empty, or the tool manager is \<open>None\<close>, no backend
  request of the run has \<open>tools\<close> or \<open>tool_choice\<close>, and the request built at the head of a
  pass is the one built when neither was supplied.
\<close>

theorem tools_need_list_and_manager:
  fixes tm :: "'w tool_manager option"
  assumes "generate_response self client query conversation_history tls tm max_tool_rounds x = (out, ts', w')"
    and "tls = None \<or> tls = Some [] \<or> tm = None"
  shows "(\<forall>req \<in> set (backend_requests (trace w')). tools req = None \<and> tool_choice req = None)
       \<and> api_params self tls tm msgs sc = api_params self None (None :: 'w tool_manager option) msgs sc"
proof (intro conjI ballI)
  fix req
  assume "req \<in> set (backend_requests (trace w'))"
  from generate_response_requests[OF assms(1) this] obtain more where
    "req = api_params self tls tm (\<lparr>role = User, message_content = Text query\<rparr> # more)
             (system_content_of self conversation_history) \<or>
     req = final_params self (\<lparr>role = User, message_content = Text query\<rparr> # more)
             (system_content_of self conversation_history)"
    by blast
  moreover from assms(2) have "\<not> (tls \<noteq> None \<and> tls \<noteq> Some [] \<and> tm \<noteq> None)"
    by blast
  ultimately show "tools req = None" "tool_choice req = None"
    by (auto simp: api_params_fields final_params_fields)
next
  from assms(2) show "api_params self tls tm msgs sc = api_params self None None msgs sc"
    by (auto simp: api_params_def Let_def)
qed

theorem tools_need_list_and_manager_witness:
  "(Some mock_tools = None \<or> Some mock_tools = Some [] \<or>
      (None :: (error + response) list tool_manager option) = None)
   \<and> (\<exists>out ts' w'.
        generate_response (AIGenerator_init ''You are an AI assistant'' ''claude'') scripted_client
          ''Test query'' None (Some mock_tools) None 2 [Inr end_turn_response] = (out, ts', w')
        \<and> backend_requests (trace w') =
            [\<lparr>model = ''claude'', temperature = 0, max_tokens = 800,
              messages = [\<lparr>role = User, message_content = Text ''Test query''\<rparr>],
              system = ''You are an AI assistant'', tools = None, tool_choice = None\<rparr>]
        \<and> list_all (\<lambda>req. tools req = None \<and> tool_choice req = None) (backend_requests (trace w')))"
proof -
  have a: "Some mock_tools = None \<or> Some mock_tools = Some [] \<or>
      (None :: (error + response) list tool_manager option) = None"
    by simp
  obtain out ts' w' where g:
    "generate_response (AIGenerator_init ''You are an AI assistant'' ''claude'') scripted_client
       ''Test query'' None (Some mock_tools) None 2 [Inr end_turn_response] = (out, ts', w')"
    and q: "backend_requests (trace w') =
            [\<lparr>model = ''claude'', temperature = 0, max_tokens = 800,
              messages = [\<lparr>role = User, message_content = Text ''Test query''\<rparr>],
              system = ''You are an AI assistant'', tools = None, tool_choice = None\<rparr>]"
    by (simp add: run_defs while_loop.simps)
  from tools_need_list_and_manager[OF g a, THEN conjunct1]
  have "list_all (\<lambda>req. tools req = None \<and> tool_choice req = None) (backend_requests (trace w'))"
    by (simp add: list_all_iff)
  with a g q show ?thesis by blast
qed

end
